theory Spec2Isabelle
  imports Main "HOL-Library.Word" "HOL-Library.Char_ord" "HOL-Library.List_Lexorder"
begin

section \<open>Index management reconciliation (internal/indexmanagement/reconcile.go)\<close>

text \<open>
  A shallow embedding of the reconciliation code of the Elasticsearch operator's index
  management: the sameness predicate for cron jobs, the create-or-update protocol for
  cron jobs and for the scripts config map, and the removal of cron jobs that no policy
  mapping asks for. The Kubernetes client, the retry combinator and the comparators live
  outside the file; they are parameters of the model or are modelled from the
  specification, as each definition says.
\<close>

subsection \<open>Errors and panics\<close>

text \<open>
  The store answers every call with nil or with an error that the apimachinery
  predicates classify as "already exists", "not found", "conflict" or none of these.
  \<open>Wrapped\<close> is what \<open>kverrors.Wrap\<close> builds around a non-nil error.
\<close>

datatype error =
    AlreadyExists
  | NotFound
  | Conflict
  | Failure string
  | Wrapped string error

fun IsAlreadyExists :: "error \<Rightarrow> bool" where
  "IsAlreadyExists AlreadyExists = True"
| "IsAlreadyExists _ = False"

fun IsNotFound :: "error \<Rightarrow> bool" where
  "IsNotFound NotFound = True"
| "IsNotFound _ = False"

fun IsConflict :: "error \<Rightarrow> bool" where
  "IsConflict Conflict = True"
| "IsConflict _ = False"

text \<open>\<open>kverrors.Wrap\<close> and \<open>errCtx.Wrap\<close>: nil stays nil, an error is wrapped with the message.\<close>

fun Wrap :: "error option \<Rightarrow> string \<Rightarrow> error option" where
  "Wrap None msg = None"
| "Wrap (Some err) msg = Some (Wrapped msg err)"

text \<open>The only run-time panic of the file: a slice indexed past its length.\<close>

datatype panic = IndexOutOfRange

subsection \<open>Objects\<close>

type_synonym int32 = "32 word"
type_synonym uint64 = "64 word"

record ObjectMeta =
  meta_Name :: string
  meta_Namespace :: string
  meta_Labels :: "string \<rightharpoonup> string"
  meta_OwnerReferences :: "string list"
  meta_ResourceVersion :: nat

record EnvVar =
  env_Name :: string
  env_Value :: string

record Toleration =
  tol_Key :: string
  tol_Operator :: string
  tol_Value :: string
  tol_Effect :: string

record ResourceRequirements =
  res_Limits :: "string \<rightharpoonup> string"
  res_Requests :: "string \<rightharpoonup> string"

record VolumeMount =
  vm_Name :: string
  vm_ReadOnly :: bool
  vm_MountPath :: string

text \<open>
  \<open>Command\<close> and \<open>Args\<close> are Go slices compared with \<open>reflect.DeepEqual\<close>, which tells a nil
  slice (\<open>None\<close>) from an empty one (\<open>Some []\<close>).
\<close>

record Container =
  container_Name :: string
  container_Image :: string
  container_ImagePullPolicy :: string
  container_Command :: "string list option"
  container_Args :: "string list option"
  container_Resources :: ResourceRequirements
  container_Env :: "EnvVar list"
  container_VolumeMounts :: "VolumeMount list"

record PodSpec =
  pod_ServiceAccountName :: string
  pod_Containers :: "Container list"
  pod_Volumes :: "string list"
  pod_NodeSelector :: "string \<rightharpoonup> string"
  pod_Tolerations :: "Toleration list"
  pod_RestartPolicy :: string
  pod_TerminationGracePeriodSeconds :: "int option"

record PodTemplateSpec =
  template_ObjectMeta :: ObjectMeta
  template_Spec :: PodSpec

record JobSpec =
  job_BackoffLimit :: "int32 option"
  job_Parallelism :: "int32 option"
  job_Template :: PodTemplateSpec

record JobTemplateSpec =
  jobtemplate_Spec :: JobSpec

record CronJobSpec =
  spec_ConcurrencyPolicy :: string
  spec_SuccessfulJobsHistoryLimit :: "int32 option"
  spec_FailedJobsHistoryLimit :: "int32 option"
  spec_Schedule :: string
  spec_Suspend :: "bool option"
  spec_JobTemplate :: JobTemplateSpec

record CronJob =
  cj_Kind :: string
  cj_APIVersion :: string
  cj_ObjectMeta :: ObjectMeta
  cj_Spec :: CronJobSpec

text \<open>The path \<open>x.Spec.JobTemplate.Spec.Template.Spec\<close> that \<open>areCronJobsSame\<close> walks.\<close>

definition podSpecOf :: "CronJob \<Rightarrow> PodSpec" where
  "podSpecOf x = template_Spec (job_Template (jobtemplate_Spec (spec_JobTemplate (cj_Spec x))))"

subsection \<open>The sameness predicate\<close>

text \<open>
  The four functions of the package \<open>comparators\<close> are defined outside the file; the model
  takes them as a parameter, so every theorem holds for whatever they compute.
\<close>

record comparators =
  AreStringMapsSame :: "(string \<rightharpoonup> string) \<Rightarrow> (string \<rightharpoonup> string) \<Rightarrow> bool"
  AreTolerationsSame :: "Toleration list \<Rightarrow> Toleration list \<Rightarrow> bool"
  AreResourceRequementsSame :: "ResourceRequirements \<Rightarrow> ResourceRequirements \<Rightarrow> bool"
  EnvValueEqual :: "EnvVar list \<Rightarrow> EnvVar list \<Rightarrow> bool"

text \<open>
  The body of the loop over the containers (reconcile.go:255-275), for one pair
  \<open>container, other\<close>: \<open>False\<close> where the source returns false, \<open>True\<close> where it goes on
  to the next index.
\<close>

definition sameContainer :: "comparators \<Rightarrow> Container \<Rightarrow> Container \<Rightarrow> bool" where
  "sameContainer cmp container other =
     (if container_Name container \<noteq> container_Name other then False
      else if container_Image container \<noteq> container_Image other then False
      else if container_Command container \<noteq> container_Command other then False
      else if container_Args container \<noteq> container_Args other then False
      else if \<not> AreResourceRequementsSame cmp (container_Resources container) (container_Resources other)
        then False
      else if \<not> EnvValueEqual cmp (container_Env container) (container_Env other) then False
      else True)"

text \<open>
  \<open>for i, container := range lhs...Containers { other := rhs...Containers[i]; ... }\<close>:
  the two slices are walked in step, and the index expression panics as soon as the
  left slice has an element where the right one has none.
\<close>

fun containersLoop :: "comparators \<Rightarrow> Container list \<Rightarrow> Container list \<Rightarrow> panic + bool" where
  "containersLoop cmp [] rs = Inr True"
| "containersLoop cmp (container # ls) [] = Inl IndexOutOfRange"
| "containersLoop cmp (container # ls) (other # rs) =
     (if \<not> sameContainer cmp container other then Inr False
      else containersLoop cmp ls rs)"

text \<open>
  \<open>areCronJobsSame\<close> (reconcile.go:234-279). The source writes the desired schedule into
  \<open>lhs\<close> before it answers false on a schedule mismatch, so the model returns \<open>lhs\<close> as the
  call leaves it, next to the answer.
\<close>

definition areCronJobsSame ::
  "comparators \<Rightarrow> CronJob \<Rightarrow> CronJob \<Rightarrow> panic + (bool \<times> CronJob)" where
  "areCronJobsSame cmp lhs rhs =
     (if length (pod_Containers (podSpecOf lhs)) \<noteq> length (pod_Containers (podSpecOf lhs))
        then Inr (False, lhs)
      else if \<not> AreStringMapsSame cmp (pod_NodeSelector (podSpecOf lhs)) (pod_NodeSelector (podSpecOf rhs))
        then Inr (False, lhs)
      else if \<not> AreTolerationsSame cmp (pod_Tolerations (podSpecOf lhs)) (pod_Tolerations (podSpecOf rhs))
        then Inr (False, lhs)
      else if spec_Schedule (cj_Spec lhs) \<noteq> spec_Schedule (cj_Spec rhs)
        then Inr (False, lhs\<lparr>cj_Spec := (cj_Spec lhs)\<lparr>spec_Schedule := spec_Schedule (cj_Spec rhs)\<rparr>\<rparr>)
      else if spec_Suspend (cj_Spec lhs) \<noteq> None \<and> spec_Suspend (cj_Spec rhs) \<noteq> None
              \<and> the (spec_Suspend (cj_Spec lhs)) \<noteq> the (spec_Suspend (cj_Spec rhs))
        then Inr (False, lhs)
      else (case containersLoop cmp (pod_Containers (podSpecOf lhs)) (pod_Containers (podSpecOf rhs)) of
              Inl p \<Rightarrow> Inl p
            | Inr same \<Rightarrow> Inr (same, lhs)))"

subsection \<open>The client and the calls it receives\<close>

record NamespacedName =
  nn_Namespace :: string
  nn_Name :: string

text \<open>\<open>types.NamespacedName{Name: x.Name, Namespace: x.Namespace}\<close>, the key of every \<open>Get\<close>.\<close>

definition keyOf :: "ObjectMeta \<Rightarrow> NamespacedName" where
  "keyOf m = \<lparr>nn_Namespace = meta_Namespace m, nn_Name = meta_Name m\<rparr>"

text \<open>
  \<open>client.Client\<close> is an interface of controller-runtime. The model takes it as a
  parameter: five operations over a store state \<open>'s\<close> that the model never inspects, each
  answering with an error classification and the next state. A remote store that other
  actors change between two calls is such a client as well. \<open>ListIn\<close> is \<open>List\<close> with the
  options \<open>InNamespace\<close> and \<open>MatchingLabels\<close>, the only way the file calls it.
\<close>

record ('o, 's) Client =
  Create :: "'o \<Rightarrow> 's \<Rightarrow> error option \<times> 's"
  Get :: "NamespacedName \<Rightarrow> 's \<Rightarrow> (error + 'o) \<times> 's"
  Update :: "'o \<Rightarrow> 's \<Rightarrow> error option \<times> 's"
  Delete :: "'o \<Rightarrow> 's \<Rightarrow> error option \<times> 's"
  ListIn :: "string \<Rightarrow> (string \<rightharpoonup> string) \<Rightarrow> 's \<Rightarrow> (error + 'o list) \<times> 's"

datatype 'o call =
    CallCreate 'o
  | CallGet NamespacedName
  | CallUpdate 'o
  | CallDelete 'o
  | CallList string "string \<rightharpoonup> string"


text \<open>
  What a run threads through: the calls issued so far, in order, the entries written
  with \<open>log.Error\<close> (error, message, object name), and the state of the store.
\<close>

record ('o, 's) world =
  calls :: "'o call list"
  errorLog :: "(error \<times> string \<times> string) list"
  store :: 's

definition apiCreate ::
  "('o, 's) Client \<Rightarrow> 'o \<Rightarrow> ('o, 's) world \<Rightarrow> error option \<times> ('o, 's) world" where
  "apiCreate apiclient obj w =
     (case Create apiclient obj (store w) of
        (err, s) \<Rightarrow> (err, w\<lparr>calls := calls w @ [CallCreate obj], store := s\<rparr>))"

definition apiGet ::
  "('o, 's) Client \<Rightarrow> NamespacedName \<Rightarrow> ('o, 's) world \<Rightarrow> (error + 'o) \<times> ('o, 's) world" where
  "apiGet apiclient key w =
     (case Get apiclient key (store w) of
        (res, s) \<Rightarrow> (res, w\<lparr>calls := calls w @ [CallGet key], store := s\<rparr>))"

definition apiUpdate ::
  "('o, 's) Client \<Rightarrow> 'o \<Rightarrow> ('o, 's) world \<Rightarrow> error option \<times> ('o, 's) world" where
  "apiUpdate apiclient obj w =
     (case Update apiclient obj (store w) of
        (err, s) \<Rightarrow> (err, w\<lparr>calls := calls w @ [CallUpdate obj], store := s\<rparr>))"

definition apiDelete ::
  "('o, 's) Client \<Rightarrow> 'o \<Rightarrow> ('o, 's) world \<Rightarrow> error option \<times> ('o, 's) world" where
  "apiDelete apiclient obj w =
     (case Delete apiclient obj (store w) of
        (err, s) \<Rightarrow> (err, w\<lparr>calls := calls w @ [CallDelete obj], store := s\<rparr>))"

definition apiList ::
  "('o, 's) Client \<Rightarrow> string \<Rightarrow> (string \<rightharpoonup> string) \<Rightarrow> ('o, 's) world
     \<Rightarrow> (error + 'o list) \<times> ('o, 's) world" where
  "apiList apiclient ns labels w =
     (case ListIn apiclient ns labels (store w) of
        (res, s) \<Rightarrow> (res, w\<lparr>calls := calls w @ [CallList ns labels], store := s\<rparr>))"

subsection \<open>Retry on conflict\<close>

text \<open>
  Modelled from the spec: \<open>retry.RetryOnConflict\<close> and the attempt budget of
  \<open>retry.DefaultRetry\<close> (client-go, not under src/). Section 4.3: a small fixed number of
  attempts, a retry only on a version conflict, and after the last attempt the conflict
  is surfaced. The budget is the parameter \<open>steps\<close>; with no attempt left nothing runs
  and there is no error to report. A panic of the attempt is not caught.
\<close>

fun RetryOnConflict ::
  "nat \<Rightarrow> ('w \<Rightarrow> (panic + error option) \<times> 'w) \<Rightarrow> 'w \<Rightarrow> (panic + error option) \<times> 'w" where
  "RetryOnConflict 0 fn w = (Inr None, w)"
| "RetryOnConflict (Suc n) fn w =
     (case fn w of
        (Inl p, w') \<Rightarrow> (Inl p, w')
      | (Inr None, w') \<Rightarrow> (Inr None, w')
      | (Inr (Some err), w') \<Rightarrow>
          (if IsConflict err
           then (if n = 0 then (Inr (Some err), w') else RetryOnConflict n fn w')
           else (Inr (Some err), w')))"

subsection \<open>Reconciling a cron job\<close>

record Elasticsearch =
  es_Name :: string
  es_Namespace :: string

text \<open>The function literal handed to \<open>retry.RetryOnConflict\<close> in \<open>reconcileCronJob\<close> (reconcile.go:217-228).\<close>

definition reconcileCronJobAttempt ::
  "(CronJob, 's) Client \<Rightarrow> CronJob \<Rightarrow> (CronJob \<Rightarrow> CronJob \<Rightarrow> panic + (bool \<times> CronJob))
     \<Rightarrow> (CronJob, 's) world \<Rightarrow> (panic + error option) \<times> (CronJob, 's) world" where
  "reconcileCronJobAttempt apiclient desired fnAreCronJobsSame w =
     (case apiGet apiclient (keyOf (cj_ObjectMeta desired)) w of
        (Inl retryError, w1) \<Rightarrow> (Inr (Some retryError), w1)
      | (Inr current, w1) \<Rightarrow>
          (case fnAreCronJobsSame current desired of
             Inl p \<Rightarrow> (Inl p, w1)
           | Inr (same, current') \<Rightarrow>
               (if \<not> same
                then (case apiUpdate apiclient (current'\<lparr>cj_Spec := cj_Spec desired\<rparr>) w1 of
                        (err, w2) \<Rightarrow> (Inr err, w2))
                else (Inr None, w1))))"

text \<open>\<open>reconcileCronJob\<close> (reconcile.go:207-232); \<open>steps\<close> stands for \<open>retry.DefaultRetry\<close>.\<close>

definition reconcileCronJob ::
  "nat \<Rightarrow> (CronJob, 's) Client \<Rightarrow> Elasticsearch \<Rightarrow> CronJob
     \<Rightarrow> (CronJob \<Rightarrow> CronJob \<Rightarrow> panic + (bool \<times> CronJob))
     \<Rightarrow> (CronJob, 's) world \<Rightarrow> (panic + error option) \<times> (CronJob, 's) world" where
  "reconcileCronJob steps apiclient cluster desired fnAreCronJobsSame w =
     (case apiCreate apiclient desired w of
        (None, w1) \<Rightarrow> (Inr None, w1)
      | (Some err, w1) \<Rightarrow>
          (if \<not> IsAlreadyExists err
           then (Inr (Wrap (Some err) ''failed to create cronjob for cluster''), w1)
           else (case RetryOnConflict steps
                        (reconcileCronJobAttempt apiclient desired fnAreCronJobsSame) w1 of
                   (Inl p, w2) \<Rightarrow> (Inl p, w2)
                 | (Inr err', w2) \<Rightarrow>
                     (Inr (Wrap err' ''failed to update cronjob for cluster''), w2))))"

subsection \<open>Reconciling the scripts config map\<close>

text \<open>
  \<open>Data\<close> is a Go map compared with \<open>reflect.DeepEqual\<close>, which tells a nil map (\<open>None\<close>)
  from an empty one.
\<close>

record ConfigMap =
  cm_ObjectMeta :: ObjectMeta
  cm_Data :: "(string \<rightharpoonup> string) option"

definition indexManagementConfigmap :: string where
  "indexManagementConfigmap = ''indexmanagement-scripts''"

definition imLabels :: "string \<rightharpoonup> string" where
  "imLabels = [''provider'' \<mapsto> ''openshift'',
               ''component'' \<mapsto> ''indexManagement'',
               ''logging-infra'' \<mapsto> ''indexManagement'']"

text \<open>
  Modelled from the spec: \<open>k8s.NewConfigMap\<close> and \<open>cluster.AddOwnerRefTo\<close> (helpers of
  the repository, not under src/). Section 4.2: the config object has a deterministic
  name and labels and carries the script bundle; section 3: the cluster is recorded
  as the owner through a back-reference.
\<close>

definition NewConfigMap ::
  "string \<Rightarrow> string \<Rightarrow> (string \<rightharpoonup> string) \<Rightarrow> (string \<rightharpoonup> string) option \<Rightarrow> ConfigMap" where
  "NewConfigMap name namespace labels data =
     \<lparr>cm_ObjectMeta = \<lparr>meta_Name = name, meta_Namespace = namespace, meta_Labels = labels,
                        meta_OwnerReferences = [], meta_ResourceVersion = 0\<rparr>,
      cm_Data = data\<rparr>"

definition AddOwnerRefTo :: "Elasticsearch \<Rightarrow> ObjectMeta \<Rightarrow> ObjectMeta" where
  "AddOwnerRefTo cluster m = m\<lparr>meta_OwnerReferences := meta_OwnerReferences m @ [es_Name cluster]\<rparr>"

text \<open>The function literal of \<open>ReconcileCurationConfigmap\<close> (reconcile.go:129-140).\<close>

definition reconcileConfigmapAttempt ::
  "(ConfigMap, 's) Client \<Rightarrow> ConfigMap \<Rightarrow> (ConfigMap, 's) world
     \<Rightarrow> (panic + error option) \<times> (ConfigMap, 's) world" where
  "reconcileConfigmapAttempt apiclient desired w =
     (case apiGet apiclient (keyOf (cm_ObjectMeta desired)) w of
        (Inl retryError, w1) \<Rightarrow> (Inr (Some retryError), w1)
      | (Inr current, w1) \<Rightarrow>
          (if cm_Data desired \<noteq> cm_Data current
           then (case apiUpdate apiclient (current\<lparr>cm_Data := cm_Data desired\<rparr>) w1 of
                   (err, w2) \<Rightarrow> (Inr err, w2))
           else (Inr None, w1)))"

text \<open>
  \<open>ReconcileCurationConfigmap\<close> (reconcile.go:112-142). The package variable \<open>scriptMap\<close> is
  declared outside the file and is a parameter here, as is the retry budget \<open>steps\<close>.
\<close>

definition ReconcileCurationConfigmap ::
  "nat \<Rightarrow> (string \<rightharpoonup> string) option \<Rightarrow> (ConfigMap, 's) Client \<Rightarrow> Elasticsearch
     \<Rightarrow> (ConfigMap, 's) world \<Rightarrow> (panic + error option) \<times> (ConfigMap, 's) world" where
  "ReconcileCurationConfigmap steps scriptMap apiclient cluster w =
     (let data = scriptMap;
          desired0 = NewConfigMap indexManagementConfigmap (es_Namespace cluster) imLabels data;
          desired = desired0\<lparr>cm_ObjectMeta := AddOwnerRefTo cluster (cm_ObjectMeta desired0)\<rparr>
      in case apiCreate apiclient desired w of
           (None, w1) \<Rightarrow> (Inr None, w1)
         | (Some err, w1) \<Rightarrow>
             (if \<not> IsAlreadyExists err
              then (Inr (Wrap (Some err) ''failed to create cluster configmap''), w1)
              else (case RetryOnConflict steps (reconcileConfigmapAttempt apiclient desired) w1 of
                      (Inl p, w2) \<Rightarrow> (Inl p, w2)
                    | (Inr err', w2) \<Rightarrow> (Inr (Wrap err' ''failed to update configmap''), w2))))"

text \<open>The object \<open>ReconcileCurationConfigmap\<close> builds and submits.\<close>

definition desiredConfigmap :: "(string \<rightharpoonup> string) option \<Rightarrow> Elasticsearch \<Rightarrow> ConfigMap" where
  "desiredConfigmap scriptMap cluster =
     (let desired0 = NewConfigMap indexManagementConfigmap (es_Namespace cluster) imLabels scriptMap
      in desired0\<lparr>cm_ObjectMeta := AddOwnerRefTo cluster (cm_ObjectMeta desired0)\<rparr>)"

subsection \<open>Removing the cron jobs no mapping asks for\<close>

text \<open>
  The policy types are declared in the package \<open>apis\<close>, outside the file; the records
  hold the fields the file reads. A phase is a pointer in the source, \<open>None\<close> when nil.
  Modelled from the spec: the fields of the hot phase (section 3: max age, max document
  count and max size, each optional).
\<close>

record HotPhase =
  hot_MaxAge :: "string option"
  hot_MaxDocs :: "int32 option"
  hot_MaxSize :: "string option"

record DeletePhase =
  delete_MinAge :: string

record IndexManagementPhasesSpec =
  phases_Hot :: "HotPhase option"
  phases_Delete :: "DeletePhase option"

record IndexManagementPolicySpec =
  policy_Name :: string
  policy_PollInterval :: string
  policy_Phases :: IndexManagementPhasesSpec

record IndexManagementPolicyMappingSpec =
  mapping_Name :: string
  mapping_PolicyRef :: string

type_synonym PolicyMap = "string \<rightharpoonup> IndexManagementPolicySpec"

text \<open>\<open>policies[ref]\<close>: a key that the Go map lacks reads as the zero value of the struct.\<close>

definition zeroPolicy :: IndexManagementPolicySpec where
  "zeroPolicy = \<lparr>policy_Name = [], policy_PollInterval = [],
                  policy_Phases = \<lparr>phases_Hot = None, phases_Delete = None\<rparr>\<rparr>"

definition policyAt :: "PolicyMap \<Rightarrow> string \<Rightarrow> IndexManagementPolicySpec" where
  "policyAt policies ref = (case policies ref of None \<Rightarrow> zeroPolicy | Some policy \<Rightarrow> policy)"

definition rolloverName :: "string \<Rightarrow> string \<Rightarrow> string" where
  "rolloverName clusterName mappingName = clusterName @ ''-rollover-'' @ mappingName"

definition deleteName :: "string \<Rightarrow> string \<Rightarrow> string" where
  "deleteName clusterName mappingName = clusterName @ ''-delete-'' @ mappingName"

text \<open>The body of the first loop (reconcile.go:67-75), for one mapping.\<close>

definition expectedStep ::
  "Elasticsearch \<Rightarrow> PolicyMap \<Rightarrow> string set \<Rightarrow> IndexManagementPolicyMappingSpec \<Rightarrow> string set" where
  "expectedStep cluster policies expected mapping =
     (let policy = policyAt policies (mapping_PolicyRef mapping);
          expected1 = (if phases_Hot (policy_Phases policy) \<noteq> None
                       then insert (rolloverName (es_Name cluster) (mapping_Name mapping)) expected
                       else expected)
      in if phases_Delete (policy_Phases policy) \<noteq> None
         then insert (deleteName (es_Name cluster) (mapping_Name mapping)) expected1
         else expected1)"

definition expectedNames ::
  "Elasticsearch \<Rightarrow> IndexManagementPolicyMappingSpec list \<Rightarrow> PolicyMap \<Rightarrow> string set" where
  "expectedNames cluster mappings policies = foldl (expectedStep cluster policies) {} mappings"

definition existingNames :: "CronJob list \<Rightarrow> string set" where
  "existingNames items = foldl (\<lambda>existing cron. insert (meta_Name (cj_ObjectMeta cron)) existing) {} items"

definition zeroObjectMeta :: ObjectMeta where
  "zeroObjectMeta = \<lparr>meta_Name = [], meta_Namespace = [], meta_Labels = Map.empty,
                      meta_OwnerReferences = [], meta_ResourceVersion = 0\<rparr>"

definition zeroPodSpec :: PodSpec where
  "zeroPodSpec = \<lparr>pod_ServiceAccountName = [], pod_Containers = [], pod_Volumes = [],
                   pod_NodeSelector = Map.empty, pod_Tolerations = [], pod_RestartPolicy = [],
                   pod_TerminationGracePeriodSeconds = None\<rparr>"

definition zeroCronJobSpec :: CronJobSpec where
  "zeroCronJobSpec =
     \<lparr>spec_ConcurrencyPolicy = [], spec_SuccessfulJobsHistoryLimit = None,
      spec_FailedJobsHistoryLimit = None, spec_Schedule = [], spec_Suspend = None,
      spec_JobTemplate = \<lparr>jobtemplate_Spec =
        \<lparr>job_BackoffLimit = None, job_Parallelism = None,
         job_Template = \<lparr>template_ObjectMeta = zeroObjectMeta, template_Spec = zeroPodSpec\<rparr>\<rparr>\<rparr>\<rparr>"

text \<open>The object handed to \<open>Delete\<close> (reconcile.go:94-103): type, name and namespace only.\<close>

definition deleteTarget :: "Elasticsearch \<Rightarrow> string \<Rightarrow> CronJob" where
  "deleteTarget cluster name =
     \<lparr>cj_Kind = ''CronJob'', cj_APIVersion = ''batch/v1beta1'',
      cj_ObjectMeta = zeroObjectMeta\<lparr>meta_Name := name, meta_Namespace := es_Namespace cluster\<rparr>,
      cj_Spec = zeroCronJobSpec\<rparr>"

text \<open>The body of the last loop (reconcile.go:93-108), for one name of the difference.\<close>

definition deleteStep ::
  "(CronJob, 's) Client \<Rightarrow> Elasticsearch \<Rightarrow> (CronJob, 's) world \<Rightarrow> string \<Rightarrow> (CronJob, 's) world" where
  "deleteStep apiclient cluster w name =
     (case apiDelete apiclient (deleteTarget cluster name) w of
        (None, w1) \<Rightarrow> w1
      | (Some err, w1) \<Rightarrow>
          (if \<not> IsNotFound err
           then w1\<lparr>errorLog := errorLog w1 @ [(err, ''failed to remove cronjob'', name)]\<rparr>
           else w1))"

text \<open>
  \<open>RemoveCronJobsForMappings\<close> (reconcile.go:65-110). \<open>sets.String\<close> is a set of strings
  and its \<open>List()\<close> is the sorted slice of the members.
\<close>

definition RemoveCronJobsForMappings ::
  "(CronJob, 's) Client \<Rightarrow> Elasticsearch \<Rightarrow> IndexManagementPolicyMappingSpec list \<Rightarrow> PolicyMap
     \<Rightarrow> (CronJob, 's) world \<Rightarrow> error option \<times> (CronJob, 's) world" where
  "RemoveCronJobsForMappings apiclient cluster mappings policies w =
     (let expected = expectedNames cluster mappings policies
      in case apiList apiclient (es_Namespace cluster) imLabels w of
           (Inl err, w1) \<Rightarrow> (Wrap (Some err) ''failed to list cron jobs'', w1)
         | (Inr items, w1) \<Rightarrow>
             (let existing = existingNames items;
                  difference = existing - expected
              in (None, foldl (deleteStep apiclient cluster) w1 (sorted_list_of_set difference))))"

text \<open>
  What the store answers to the \<open>Delete\<close> of each name of a list, in order, each call
  made on the state the one before left: the answers the last loop receives.
\<close>

fun deleteAnswers ::
  "(CronJob, 's) Client \<Rightarrow> Elasticsearch \<Rightarrow> 's \<Rightarrow> string list \<Rightarrow> (string \<times> error option) list" where
  "deleteAnswers apiclient cluster s [] = []"
| "deleteAnswers apiclient cluster s (name # names) =
     (case Delete apiclient (deleteTarget cluster name) s of
        (answer, s') \<Rightarrow> (name, answer) # deleteAnswers apiclient cluster s' names)"

text \<open>
  The log entries the claims ask for, to compare the run with: one entry, with the
  error and the name, for every answer that is an error other than "not found", in the
  order of the answers; none for nil and none for "not found".
\<close>

fun failureEntries :: "(string \<times> error option) list \<Rightarrow> (error \<times> string \<times> string) list" where
  "failureEntries [] = []"
| "failureEntries ((name, None) # answers) = failureEntries answers"
| "failureEntries ((name, Some err) # answers) =
     (if IsNotFound err then failureEntries answers
      else (err, ''failed to remove cronjob'', name) # failureEntries answers)"

text \<open>The names a run handed to \<open>Delete\<close>, in the order of the calls.\<close>

fun deletedNames :: "CronJob call list \<Rightarrow> string list" where
  "deletedNames [] = []"
| "deletedNames (CallDelete obj # cs) = meta_Name (cj_ObjectMeta obj) # deletedNames cs"
| "deletedNames (c # cs) = deletedNames cs"

subsection \<open>Thresholds\<close>

definition defaultShardSize :: int32 where
  "defaultShardSize = 40"

definition millisPerSecond :: uint64 where
  "millisPerSecond = 1000"

definition millisPerMinute :: uint64 where
  "millisPerMinute = 60 * millisPerSecond"

definition millisPerHour :: uint64 where
  "millisPerHour = millisPerMinute * 60"

definition millisPerDay :: uint64 where
  "millisPerDay = millisPerHour * 24"

definition millisPerWeek :: uint64 where
  "millisPerWeek = millisPerDay * 7"

text \<open>The struct \<open>rolloverConditions\<close> (reconcile.go:59-63); an empty field is left out of the JSON.\<close>

record rolloverConditions =
  MaxAge :: string
  MaxDocs :: int32
  MaxSize :: string

text \<open>
  Modelled from the spec: \<open>calculateConditions\<close>, which reconcile.go:153 calls and which
  is defined outside src/. Section 4.1, \<open>rolloverConditions(hotPhase, primaryShards)\<close>:
  max age and max docs pass through when set; max size is the policy's when set and
  \<open>defaultShardSize \<times> primaryShards\<close> otherwise. Neither the spec nor the file says how the
  product is written into the string field, so the rendering is the parameter
  \<open>sizeString\<close>.
\<close>

definition calculateConditions :: "(int32 \<Rightarrow> string) \<Rightarrow> HotPhase \<Rightarrow> int32 \<Rightarrow> rolloverConditions" where
  "calculateConditions sizeString hot primaryShards =
     \<lparr>MaxAge = (case hot_MaxAge hot of None \<Rightarrow> [] | Some age \<Rightarrow> age),
      MaxDocs = (case hot_MaxDocs hot of None \<Rightarrow> 0 | Some docs \<Rightarrow> docs),
      MaxSize = (case hot_MaxSize hot of
                   None \<Rightarrow> sizeString (defaultShardSize * primaryShards)
                 | Some maxSize \<Rightarrow> maxSize)\<rparr>"

text \<open>
  Modelled from the spec: \<open>calculateMillisForTimeUnit\<close>, which reconcile.go:185 calls and
  which is defined outside src/. Section 4.1, \<open>thresholdMillis(durationSpec)\<close>: a
  duration is one or more segments, each a decimal magnitude followed by one of the
  units s, m, h, d, w; the segments accumulate; an unknown unit or a missing magnitude
  is an error. The factors are the variables of reconcile.go:43-47.
\<close>

datatype durationError = InvalidDuration

definition isDigit :: "char \<Rightarrow> bool" where
  "isDigit c = (c \<in> set ''0123456789'')"

definition digitValue :: "char \<Rightarrow> nat" where
  "digitValue c = of_char c - 48"

definition unitMillis :: "char \<Rightarrow> uint64 option" where
  "unitMillis c =
     (if c = CHR ''s'' then Some millisPerSecond
      else if c = CHR ''m'' then Some millisPerMinute
      else if c = CHR ''h'' then Some millisPerHour
      else if c = CHR ''d'' then Some millisPerDay
      else if c = CHR ''w'' then Some millisPerWeek
      else None)"

text \<open>
  \<open>scanDuration acc magnitude cs\<close>: \<open>acc\<close> is the sum of the segments read so far
  and \<open>magnitude\<close> the digits of the segment being read, \<open>None\<close> before its first digit.
\<close>

fun scanDuration :: "uint64 \<Rightarrow> nat option \<Rightarrow> string \<Rightarrow> durationError + uint64" where
  "scanDuration acc None [] = Inr acc"
| "scanDuration acc (Some n) [] = Inl InvalidDuration"
| "scanDuration acc magnitude (c # cs) =
     (if isDigit c
      then scanDuration acc
             (Some (10 * (case magnitude of None \<Rightarrow> 0 | Some n \<Rightarrow> n) + digitValue c)) cs
      else (case magnitude of
              None \<Rightarrow> Inl InvalidDuration
            | Some n \<Rightarrow>
                (case unitMillis c of
                   None \<Rightarrow> Inl InvalidDuration
                 | Some factor \<Rightarrow> scanDuration (acc + of_nat n * factor) None cs)))"

definition calculateMillisForTimeUnit :: "string \<Rightarrow> durationError + uint64" where
  "calculateMillisForTimeUnit timeunit =
     (if timeunit = [] then Inl InvalidDuration else scanDuration 0 None timeunit)"

text \<open>
  The reading of a duration that the claims state, to compare the scanner with: a valid
  duration is a non-empty list of segments, each a non-empty string of digits and a
  unit; a segment is worth its magnitude times the fixed factor of its unit; the
  segments add up in 64 bits.
\<close>

definition decimal :: "string \<Rightarrow> nat" where
  "decimal ds = foldl (\<lambda>n c. 10 * n + digitValue c) 0 ds"

definition unitFactor :: "char \<Rightarrow> uint64" where
  "unitFactor u =
     (if u = CHR ''s'' then 1000
      else if u = CHR ''m'' then 60000
      else if u = CHR ''h'' then 3600000
      else if u = CHR ''d'' then 86400000
      else if u = CHR ''w'' then 604800000
      else 0)"

definition validSegment :: "string \<times> char \<Rightarrow> bool" where
  "validSegment seg =
     (fst seg \<noteq> [] \<and> list_all isDigit (fst seg) \<and> snd seg \<in> set ''smhdw'')"

definition durationString :: "(string \<times> char) list \<Rightarrow> string" where
  "durationString segs = concat (map (\<lambda>seg. fst seg @ [snd seg]) segs)"

definition durationMillis :: "(string \<times> char) list \<Rightarrow> uint64" where
  "durationMillis segs = sum_list (map (\<lambda>seg. of_nat (decimal (fst seg)) * unitFactor (snd seg)) segs)"

subsection \<open>A store to run the code against\<close>

text \<open>
  Modelled from the spec: the remote object store of section 6, with no other actor.
  Objects are kept by namespace and name; \<open>Create\<close> answers "already exists" for a key
  that is taken, \<open>Get\<close>, \<open>Update\<close> and \<open>Delete\<close> answer "not found" for a key that is not,
  and \<open>Update\<close> answers "conflict" unless the object carries the stored resource version,
  which every accepted write advances. The theorems below hold for every client; this
  one is the client their instances are evaluated on.
\<close>

definition objKey :: "ObjectMeta \<Rightarrow> string \<times> string" where
  "objKey m = (meta_Namespace m, meta_Name m)"

definition memCreate ::
  "('o \<Rightarrow> ObjectMeta) \<Rightarrow> ((ObjectMeta \<Rightarrow> ObjectMeta) \<Rightarrow> 'o \<Rightarrow> 'o) \<Rightarrow> 'o \<Rightarrow> 'o list
     \<Rightarrow> error option \<times> 'o list" where
  "memCreate meta metaUpdate obj s =
     (case find (\<lambda>x. objKey (meta x) = objKey (meta obj)) s of
        Some old \<Rightarrow> (Some AlreadyExists, s)
      | None \<Rightarrow> (None, s @ [metaUpdate (\<lambda>m. m\<lparr>meta_ResourceVersion := 1\<rparr>) obj]))"

definition memGet ::
  "('o \<Rightarrow> ObjectMeta) \<Rightarrow> NamespacedName \<Rightarrow> 'o list \<Rightarrow> (error + 'o) \<times> 'o list" where
  "memGet meta key s =
     (case find (\<lambda>x. objKey (meta x) = (nn_Namespace key, nn_Name key)) s of
        None \<Rightarrow> (Inl NotFound, s)
      | Some x \<Rightarrow> (Inr x, s))"

definition memUpdate ::
  "('o \<Rightarrow> ObjectMeta) \<Rightarrow> ((ObjectMeta \<Rightarrow> ObjectMeta) \<Rightarrow> 'o \<Rightarrow> 'o) \<Rightarrow> 'o \<Rightarrow> 'o list
     \<Rightarrow> error option \<times> 'o list" where
  "memUpdate meta metaUpdate obj s =
     (case find (\<lambda>x. objKey (meta x) = objKey (meta obj)) s of
        None \<Rightarrow> (Some NotFound, s)
      | Some old \<Rightarrow>
          (if meta_ResourceVersion (meta obj) \<noteq> meta_ResourceVersion (meta old)
           then (Some Conflict, s)
           else (None,
                 map (\<lambda>x. if objKey (meta x) = objKey (meta obj)
                           then metaUpdate
                                  (\<lambda>m. m\<lparr>meta_ResourceVersion := Suc (meta_ResourceVersion (meta old))\<rparr>)
                                  obj
                           else x) s)))"

definition memDelete ::
  "('o \<Rightarrow> ObjectMeta) \<Rightarrow> 'o \<Rightarrow> 'o list \<Rightarrow> error option \<times> 'o list" where
  "memDelete meta obj s =
     (case find (\<lambda>x. objKey (meta x) = objKey (meta obj)) s of
        None \<Rightarrow> (Some NotFound, s)
      | Some old \<Rightarrow> (None, filter (\<lambda>x. objKey (meta x) \<noteq> objKey (meta obj)) s))"

definition memList ::
  "('o \<Rightarrow> ObjectMeta) \<Rightarrow> string \<Rightarrow> (string \<rightharpoonup> string) \<Rightarrow> 'o list \<Rightarrow> (error + 'o list) \<times> 'o list" where
  "memList meta ns labels s =
     (Inr (filter (\<lambda>x. meta_Namespace (meta x) = ns \<and> labels \<subseteq>\<^sub>m meta_Labels (meta x)) s), s)"

definition memClient ::
  "('o \<Rightarrow> ObjectMeta) \<Rightarrow> ((ObjectMeta \<Rightarrow> ObjectMeta) \<Rightarrow> 'o \<Rightarrow> 'o) \<Rightarrow> ('o, 'o list) Client" where
  "memClient meta metaUpdate =
     \<lparr>Create = memCreate meta metaUpdate, Get = memGet meta, Update = memUpdate meta metaUpdate,
      Delete = memDelete meta, ListIn = memList meta\<rparr>"

definition cronJobStore :: "(CronJob, CronJob list) Client" where
  "cronJobStore = memClient cj_ObjectMeta cj_ObjectMeta_update"

definition configMapStore :: "(ConfigMap, ConfigMap list) Client" where
  "configMapStore = memClient cm_ObjectMeta cm_ObjectMeta_update"

text \<open>The same store behind a client that may read but not write: every write is refused.\<close>

definition readOnlyClient :: "('o \<Rightarrow> ObjectMeta) \<Rightarrow> ('o, 'o list) Client" where
  "readOnlyClient meta =
     \<lparr>Create = (\<lambda>obj s. (Some (Failure ''forbidden''), s)), Get = memGet meta,
      Update = (\<lambda>obj s. (Some (Failure ''forbidden''), s)),
      Delete = (\<lambda>obj s. (Some (Failure ''forbidden''), s)), ListIn = memList meta\<rparr>"


definition newWorld :: "'s \<Rightarrow> ('o, 's) world" where
  "newWorld s = \<lparr>calls = [], errorLog = [], store = s\<rparr>"

text \<open>
  Modelled from the spec: the comparators as section 4.3 (5) describes them: equality
  of the node selector maps, of the tolerations as sets, of the resource requests and of
  the environments.
\<close>

definition specComparators :: comparators where
  "specComparators =
     \<lparr>AreStringMapsSame = (\<lambda>lhs rhs. lhs = rhs),
      AreTolerationsSame = (\<lambda>lhs rhs. set lhs = set rhs),
      AreResourceRequementsSame = (\<lambda>lhs rhs. res_Requests lhs = res_Requests rhs),
      EnvValueEqual = (\<lambda>lhs rhs. lhs = rhs)\<rparr>"

subsection \<open>Objects to evaluate on\<close>

definition exampleCluster :: Elasticsearch where
  "exampleCluster = \<lparr>es_Name = ''A'', es_Namespace = ''logging''\<rparr>"

definition exampleContainer :: Container where
  "exampleContainer =
     \<lparr>container_Name = ''indexmanagement'', container_Image = ''elasticsearch:6'',
      container_ImagePullPolicy = ''IfNotPresent'', container_Command = Some [''bash''],
      container_Args = Some [''-c'', ''/tmp/scripts/rollover''],
      container_Resources = \<lparr>res_Limits = Map.empty,
                             res_Requests = [''memory'' \<mapsto> ''32Mi'', ''cpu'' \<mapsto> ''100m'']\<rparr>,
      container_Env = [\<lparr>env_Name = ''ES_SERVICE'', env_Value = ''https://A:9200''\<rparr>,
                       \<lparr>env_Name = ''POLICY_MAPPING'', env_Value = ''X''\<rparr>],
      container_VolumeMounts =
        [\<lparr>vm_Name = ''certs'', vm_ReadOnly = True, vm_MountPath = ''/etc/indexmanagement/keys''\<rparr>,
         \<lparr>vm_Name = ''scripts'', vm_ReadOnly = False, vm_MountPath = ''/tmp/scripts''\<rparr>]\<rparr>"

definition sidecarContainer :: Container where
  "sidecarContainer = exampleContainer\<lparr>container_Name := ''sidecar'', container_Image := ''proxy:1''\<rparr>"

definition exampleCronJobWith :: "string \<Rightarrow> string \<Rightarrow> Container list \<Rightarrow> CronJob" where
  "exampleCronJobWith name schedule containers =
     \<lparr>cj_Kind = ''CronJob'', cj_APIVersion = ''batch/v1beta1'',
      cj_ObjectMeta = \<lparr>meta_Name = name, meta_Namespace = ''logging'', meta_Labels = imLabels,
                        meta_OwnerReferences = [''A''], meta_ResourceVersion = 0\<rparr>,
      cj_Spec =
        \<lparr>spec_ConcurrencyPolicy = ''Forbid'', spec_SuccessfulJobsHistoryLimit = Some 1,
         spec_FailedJobsHistoryLimit = Some 1, spec_Schedule = schedule, spec_Suspend = None,
         spec_JobTemplate = \<lparr>jobtemplate_Spec =
           \<lparr>job_BackoffLimit = Some 0, job_Parallelism = Some 1,
            job_Template =
              \<lparr>template_ObjectMeta = \<lparr>meta_Name = name, meta_Namespace = ''logging'',
                                       meta_Labels = imLabels, meta_OwnerReferences = [],
                                       meta_ResourceVersion = 0\<rparr>,
               template_Spec =
                 \<lparr>pod_ServiceAccountName = ''A'', pod_Containers = containers,
                  pod_Volumes = [''certs'', ''scripts''],
                  pod_NodeSelector = [''kubernetes.io/os'' \<mapsto> ''linux''],
                  pod_Tolerations = [], pod_RestartPolicy = ''Never'',
                  pod_TerminationGracePeriodSeconds = Some 300\<rparr>\<rparr>\<rparr>\<rparr>\<rparr>\<rparr>"

definition exampleCronJob :: "string \<Rightarrow> CronJob" where
  "exampleCronJob schedule = exampleCronJobWith ''A-rollover-X'' schedule [exampleContainer]"

text \<open>The cron job and the config map as the store holds them after their creation.\<close>

definition storedCronJob :: CronJob where
  "storedCronJob =
     (exampleCronJob ''*/15 * * * *'')
       \<lparr>cj_ObjectMeta := (cj_ObjectMeta (exampleCronJob ''*/15 * * * *''))\<lparr>meta_ResourceVersion := 1\<rparr>\<rparr>"

definition exampleScripts :: "(string \<rightharpoonup> string) option" where
  "exampleScripts = Some [''rollover'' \<mapsto> ''#!/bin/bash'', ''delete'' \<mapsto> ''#!/bin/bash'']"

definition storedConfigmap :: ConfigMap where
  "storedConfigmap =
     (desiredConfigmap exampleScripts exampleCluster)
       \<lparr>cm_ObjectMeta := (cm_ObjectMeta (desiredConfigmap exampleScripts exampleCluster))
                           \<lparr>meta_ResourceVersion := 1\<rparr>\<rparr>"

text \<open>
  The example of section 8: the cluster \<open>A\<close> has the cron jobs \<open>A-rollover-X\<close>, \<open>A-delete-X\<close>
  and \<open>A-rollover-Y\<close>; the mapping \<open>X\<close> names a policy with a hot phase and no delete phase;
  the mapping \<open>Y\<close> names a policy that the policy map does not have.
\<close>

definition hotOnlyPolicy :: IndexManagementPolicySpec where
  "hotOnlyPolicy =
     \<lparr>policy_Name = ''hot-only'', policy_PollInterval = ''15m'',
      policy_Phases = \<lparr>phases_Hot = Some \<lparr>hot_MaxAge = Some ''1d'', hot_MaxDocs = None,
                                          hot_MaxSize = None\<rparr>,
                       phases_Delete = None\<rparr>\<rparr>"

definition examplePolicies :: PolicyMap where
  "examplePolicies = [''hot-only'' \<mapsto> hotOnlyPolicy]"

definition mappingX :: IndexManagementPolicyMappingSpec where
  "mappingX = \<lparr>mapping_Name = ''X'', mapping_PolicyRef = ''hot-only''\<rparr>"

definition mappingY :: IndexManagementPolicyMappingSpec where
  "mappingY = \<lparr>mapping_Name = ''Y'', mapping_PolicyRef = ''missing''\<rparr>"

definition threeCronJobs :: "CronJob list" where
  "threeCronJobs =
     [exampleCronJobWith ''A-rollover-X'' ''*/15 * * * *'' [exampleContainer],
      exampleCronJobWith ''A-delete-X'' ''*/15 * * * *'' [exampleContainer],
      exampleCronJobWith ''A-rollover-Y'' ''*/15 * * * *'' [exampleContainer]]"

section \<open>Properties\<close>

subsection \<open>Shared facts about the retry loop and the two protocols\<close>

lemmas example_defs =
  exampleCronJob_def exampleCronJobWith_def exampleContainer_def sidecarContainer_def
  exampleCluster_def storedCronJob_def storedConfigmap_def exampleScripts_def
  desiredConfigmap_def NewConfigMap_def AddOwnerRefTo_def indexManagementConfigmap_def

lemmas store_defs =
  cronJobStore_def configMapStore_def memClient_def readOnlyClient_def memCreate_def
  memGet_def memUpdate_def memDelete_def memList_def objKey_def keyOf_def newWorld_def

lemma RetryOnConflict_first:
  assumes "0 < steps" and "fn w = (r, w')" and "r \<noteq> Inr (Some Conflict)"
  shows "RetryOnConflict steps fn w = (r, w')"
proof -
  from assms(1) obtain n where n: "steps = Suc n" by (cases steps) auto
  have nc: "\<not> IsConflict err" if "r = Inr (Some err)" for err
    using assms(3) that by (cases err) auto
  show ?thesis
  proof (cases r)
    case (Inl p)
    then show ?thesis using assms(2) n by simp
  next
    case (Inr e)
    then show ?thesis using assms(2) n nc by (cases e) auto
  qed
qed

lemma RetryOnConflict_calls:
  assumes ext: "\<And>w. \<exists>rest. calls (snd (fn w)) = calls w @ c # rest"
  shows "\<exists>rest. calls (snd (RetryOnConflict (Suc n) fn w)) = calls w @ c # rest"
proof (induction n arbitrary: w)
  case 0
  from ext [of w] show ?case
    by (auto split: prod.splits sum.splits option.splits)
next
  case (Suc n)
  obtain r w' where fw: "fn w = (r, w')" by (cases "fn w")
  from ext [of w] fw obtain rest where rest: "calls w' = calls w @ c # rest" by auto
  from Suc.IH [of w'] obtain rest' where
    "calls (snd (RetryOnConflict (Suc n) fn w')) = calls w' @ c # rest'" by blast
  with rest have again:
    "calls (snd (RetryOnConflict (Suc n) fn w')) = calls w @ c # (rest @ c # rest')"
    by simp
  show ?case
  proof (cases "r = Inr (Some Conflict)")
    case True
    have "RetryOnConflict (Suc (Suc n)) fn w = RetryOnConflict (Suc n) fn w'"
      using fw True by simp
    with again show ?thesis by metis
  next
    case False
    have "RetryOnConflict (Suc (Suc n)) fn w = (r, w')"
      by (rule RetryOnConflict_first) (use fw False in simp_all)
    with rest show ?thesis by simp
  qed
qed

lemma reconcileCronJobAttempt_same:
  assumes "Get apiclient (keyOf (cj_ObjectMeta desired)) (store w) = (Inr current, s)"
    and "fnAreCronJobsSame current desired = Inr (True, current')"
  shows "reconcileCronJobAttempt apiclient desired fnAreCronJobsSame w =
           (Inr None, w\<lparr>calls := calls w @ [CallGet (keyOf (cj_ObjectMeta desired))], store := s\<rparr>)"
  using assms by (simp add: reconcileCronJobAttempt_def apiGet_def)


lemma reconcileConfigmapAttempt_same:
  assumes "Get apiclient (keyOf (cm_ObjectMeta desired)) (store w) = (Inr current, s)"
    and "cm_Data desired = cm_Data current"
  shows "reconcileConfigmapAttempt apiclient desired w =
           (Inr None, w\<lparr>calls := calls w @ [CallGet (keyOf (cm_ObjectMeta desired))], store := s\<rparr>)"
  using assms by (simp add: reconcileConfigmapAttempt_def apiGet_def)

lemma reconcileCronJobAttempt_calls:
  "\<exists>rest. calls (snd (reconcileCronJobAttempt apiclient desired fn w)) =
            calls w @ CallGet (keyOf (cj_ObjectMeta desired)) # rest"
  by (auto simp: reconcileCronJobAttempt_def apiGet_def apiUpdate_def split: prod.splits sum.splits)

lemma reconcileConfigmapAttempt_calls:
  "\<exists>rest. calls (snd (reconcileConfigmapAttempt apiclient desired w)) =
            calls w @ CallGet (keyOf (cm_ObjectMeta desired)) # rest"
  by (auto simp: reconcileConfigmapAttempt_def apiGet_def apiUpdate_def split: prod.splits sum.splits)

lemma reconcileCronJob_created:
  assumes "Create apiclient desired (store w) = (None, s)"
  shows "reconcileCronJob steps apiclient cluster desired fn w =
           (Inr None, w\<lparr>calls := calls w @ [CallCreate desired], store := s\<rparr>)"
  using assms by (simp add: reconcileCronJob_def apiCreate_def)

lemma reconcileCronJob_failed:
  assumes "Create apiclient desired (store w) = (Some err, s)" and "\<not> IsAlreadyExists err"
  shows "reconcileCronJob steps apiclient cluster desired fn w =
           (Inr (Some (Wrapped ''failed to create cronjob for cluster'' err)),
            w\<lparr>calls := calls w @ [CallCreate desired], store := s\<rparr>)"
  using assms by (simp add: reconcileCronJob_def apiCreate_def)

lemma reconcileCronJob_exists:
  assumes "Create apiclient desired (store w) = (Some err, s)" and "IsAlreadyExists err"
  shows "reconcileCronJob steps apiclient cluster desired fn w =
     (case RetryOnConflict steps (reconcileCronJobAttempt apiclient desired fn)
             (w\<lparr>calls := calls w @ [CallCreate desired], store := s\<rparr>) of
        (Inl p, w2) \<Rightarrow> (Inl p, w2)
      | (Inr err', w2) \<Rightarrow> (Inr (Wrap err' ''failed to update cronjob for cluster''), w2))"
  using assms by (simp add: reconcileCronJob_def apiCreate_def)

lemma ReconcileCurationConfigmap_created:
  assumes "Create apiclient (desiredConfigmap scriptMap cluster) (store w) = (None, s)"
  shows "ReconcileCurationConfigmap steps scriptMap apiclient cluster w =
           (Inr None,
            w\<lparr>calls := calls w @ [CallCreate (desiredConfigmap scriptMap cluster)], store := s\<rparr>)"
  using assms
  by (simp add: ReconcileCurationConfigmap_def desiredConfigmap_def apiCreate_def Let_def)

lemma ReconcileCurationConfigmap_failed:
  assumes "Create apiclient (desiredConfigmap scriptMap cluster) (store w) = (Some err, s)"
    and "\<not> IsAlreadyExists err"
  shows "ReconcileCurationConfigmap steps scriptMap apiclient cluster w =
           (Inr (Some (Wrapped ''failed to create cluster configmap'' err)),
            w\<lparr>calls := calls w @ [CallCreate (desiredConfigmap scriptMap cluster)], store := s\<rparr>)"
  using assms
  by (simp add: ReconcileCurationConfigmap_def desiredConfigmap_def apiCreate_def Let_def)

lemma ReconcileCurationConfigmap_exists:
  assumes "Create apiclient (desiredConfigmap scriptMap cluster) (store w) = (Some err, s)"
    and "IsAlreadyExists err"
  shows "ReconcileCurationConfigmap steps scriptMap apiclient cluster w =
     (case RetryOnConflict steps
             (reconcileConfigmapAttempt apiclient (desiredConfigmap scriptMap cluster))
             (w\<lparr>calls := calls w @ [CallCreate (desiredConfigmap scriptMap cluster)], store := s\<rparr>) of
        (Inl p, w2) \<Rightarrow> (Inl p, w2)
      | (Inr err', w2) \<Rightarrow> (Inr (Wrap err' ''failed to update configmap''), w2))"
  using assms
  by (simp add: ReconcileCurationConfigmap_def desiredConfigmap_def apiCreate_def Let_def)

lemma reconcileCronJob_fetches:
  assumes "Create apiclient desired (store w) = (Some err, s)" and "IsAlreadyExists err"
    and "0 < steps"
  shows "\<exists>rest. calls (snd (reconcileCronJob steps apiclient cluster desired fn w)) =
           calls w @ CallCreate desired # CallGet (keyOf (cj_ObjectMeta desired)) # rest"
proof -
  from assms(3) obtain n where n: "steps = Suc n" by (cases steps) auto
  let ?w1 = "w\<lparr>calls := calls w @ [CallCreate desired], store := s\<rparr>"
  from RetryOnConflict_calls [where fn = "reconcileCronJobAttempt apiclient desired fn"
      and c = "CallGet (keyOf (cj_ObjectMeta desired))" and w = ?w1 and n = n,
      OF reconcileCronJobAttempt_calls]
  obtain rest where
    "calls (snd (RetryOnConflict steps (reconcileCronJobAttempt apiclient desired fn) ?w1)) =
       calls ?w1 @ CallGet (keyOf (cj_ObjectMeta desired)) # rest"
    using n by blast
  then show ?thesis
    by (auto simp: reconcileCronJob_exists [OF assms(1,2)] split: prod.splits sum.splits)
qed

lemma ReconcileCurationConfigmap_fetches:
  assumes "Create apiclient (desiredConfigmap scriptMap cluster) (store w) = (Some err, s)"
    and "IsAlreadyExists err" and "0 < steps"
  shows "\<exists>rest. calls (snd (ReconcileCurationConfigmap steps scriptMap apiclient cluster w)) =
           calls w @ CallCreate (desiredConfigmap scriptMap cluster)
             # CallGet (keyOf (cm_ObjectMeta (desiredConfigmap scriptMap cluster))) # rest"
proof -
  from assms(3) obtain n where n: "steps = Suc n" by (cases steps) auto
  let ?D = "desiredConfigmap scriptMap cluster"
  let ?w1 = "w\<lparr>calls := calls w @ [CallCreate ?D], store := s\<rparr>"
  from RetryOnConflict_calls [where fn = "reconcileConfigmapAttempt apiclient ?D"
      and c = "CallGet (keyOf (cm_ObjectMeta ?D))" and w = ?w1 and n = n,
      OF reconcileConfigmapAttempt_calls]
  obtain rest where
    "calls (snd (RetryOnConflict steps (reconcileConfigmapAttempt apiclient ?D) ?w1)) =
       calls ?w1 @ CallGet (keyOf (cm_ObjectMeta ?D)) # rest"
    using n by blast
  then show ?thesis
    by (auto simp: ReconcileCurationConfigmap_exists [OF assms(1,2)] split: prod.splits sum.splits)
qed

lemma reconcileCronJob_same:
  assumes create: "Create apiclient desired (store w) = (Some err, s1)"
    and exists: "IsAlreadyExists err"
    and get: "Get apiclient (keyOf (cj_ObjectMeta desired)) s1 = (Inr current, s2)"
    and same: "fn current desired = Inr (True, current')"
    and budget: "0 < steps"
  shows "reconcileCronJob steps apiclient cluster desired fn w =
           (Inr None,
            w\<lparr>calls := calls w @ [CallCreate desired, CallGet (keyOf (cj_ObjectMeta desired))],
              store := s2\<rparr>)"
proof -
  let ?w1 = "w\<lparr>calls := calls w @ [CallCreate desired], store := s1\<rparr>"
  have attempt: "reconcileCronJobAttempt apiclient desired fn ?w1 =
      (Inr None, ?w1\<lparr>calls := calls ?w1 @ [CallGet (keyOf (cj_ObjectMeta desired))], store := s2\<rparr>)"
    by (rule reconcileCronJobAttempt_same [where current = current and current' = current'])
       (use get same in simp_all)
  have "(Inr None :: panic + error option) \<noteq> Inr (Some Conflict)" by simp
  from RetryOnConflict_first [where fn = "reconcileCronJobAttempt apiclient desired fn"
      and w = ?w1, OF budget attempt this]
  show ?thesis by (simp add: reconcileCronJob_exists [OF create exists])
qed

lemma ReconcileCurationConfigmap_same:
  assumes create: "Create apiclient (desiredConfigmap scriptMap cluster) (store w) = (Some err, s1)"
    and exists: "IsAlreadyExists err"
    and get: "Get apiclient (keyOf (cm_ObjectMeta (desiredConfigmap scriptMap cluster))) s1 =
                (Inr current, s2)"
    and same: "cm_Data (desiredConfigmap scriptMap cluster) = cm_Data current"
    and budget: "0 < steps"
  shows "ReconcileCurationConfigmap steps scriptMap apiclient cluster w =
           (Inr None,
            w\<lparr>calls := calls w @ [CallCreate (desiredConfigmap scriptMap cluster),
                                  CallGet (keyOf (cm_ObjectMeta (desiredConfigmap scriptMap cluster)))],
              store := s2\<rparr>)"
proof -
  let ?D = "desiredConfigmap scriptMap cluster"
  let ?w1 = "w\<lparr>calls := calls w @ [CallCreate ?D], store := s1\<rparr>"
  have attempt: "reconcileConfigmapAttempt apiclient ?D ?w1 =
      (Inr None, ?w1\<lparr>calls := calls ?w1 @ [CallGet (keyOf (cm_ObjectMeta ?D))], store := s2\<rparr>)"
    by (rule reconcileConfigmapAttempt_same [where current = current])
       (use get same in simp_all)
  have "(Inr None :: panic + error option) \<noteq> Inr (Some Conflict)" by simp
  from RetryOnConflict_first [where fn = "reconcileConfigmapAttempt apiclient ?D"
      and w = ?w1, OF budget attempt this]
  show ?thesis by (simp add: ReconcileCurationConfigmap_exists [OF create exists])
qed

lemma containersLoop_panic_iff:
  "containersLoop cmp ls rs = Inl IndexOutOfRange \<longleftrightarrow>
     (length rs < length ls \<and> (\<forall>i<length rs. sameContainer cmp (ls ! i) (rs ! i)))"
proof (induction cmp ls rs rule: containersLoop.induct)
  case (1 cmp rs)
  then show ?case by simp
next
  case (2 cmp container ls)
  then show ?case by simp
next
  case (3 cmp container ls other rs)
  show ?case
  proof (cases "sameContainer cmp container other")
    case True
    with 3 show ?thesis by (auto simp: less_Suc_eq_0_disj)
  next
    case False
    then show ?thesis by auto
  qed
qed


subsection \<open>Shared facts about the removal of cron jobs\<close>



lemma foldl_insert_names:
  "foldl (\<lambda>existing cron. insert (f cron) existing) E items = E \<union> f ` set items"
  by (induction items arbitrary: E) auto

lemma existingNames_set:
  "existingNames items = (\<lambda>cron. meta_Name (cj_ObjectMeta cron)) ` set items"
  unfolding existingNames_def foldl_insert_names by simp

lemma finite_existingNames: "finite (existingNames items)"
  by (simp add: existingNames_set)

lemma deleteStep_calls:
  "calls (deleteStep apiclient cluster w name) = calls w @ [CallDelete (deleteTarget cluster name)]"
  by (auto simp: deleteStep_def apiDelete_def split: prod.splits option.splits)

lemma foldl_deleteStep_calls:
  "calls (foldl (deleteStep apiclient cluster) w names) =
     calls w @ map (\<lambda>name. CallDelete (deleteTarget cluster name)) names"
  by (induction names arbitrary: w) (simp_all add: deleteStep_calls)

lemma deleteStep_store:
  "store (deleteStep apiclient cluster w name) =
     snd (Delete apiclient (deleteTarget cluster name) (store w))"
  by (auto simp: deleteStep_def apiDelete_def split: prod.splits option.splits)

lemma deleteStep_errorLog:
  "errorLog (deleteStep apiclient cluster w name) =
     errorLog w
       @ failureEntries [(name, fst (Delete apiclient (deleteTarget cluster name) (store w)))]"
  by (auto simp: deleteStep_def apiDelete_def split: prod.splits option.splits)

lemma foldl_deleteStep_errorLog:
  "errorLog (foldl (deleteStep apiclient cluster) w names) =
     errorLog w @ failureEntries (deleteAnswers apiclient cluster (store w) names)"
proof (induction names arbitrary: w)
  case Nil
  show ?case by simp
next
  case (Cons name names)
  obtain answer s' where del: "Delete apiclient (deleteTarget cluster name) (store w) = (answer, s')"
    by (cases "Delete apiclient (deleteTarget cluster name) (store w)")
  have "errorLog (foldl (deleteStep apiclient cluster) w (name # names)) =
      errorLog (deleteStep apiclient cluster w name)
        @ failureEntries (deleteAnswers apiclient cluster
                            (store (deleteStep apiclient cluster w name)) names)"
    by (simp add: Cons.IH)
  also have "\<dots> = (errorLog w @ failureEntries [(name, answer)])
      @ failureEntries (deleteAnswers apiclient cluster s' names)"
    by (simp add: deleteStep_store deleteStep_errorLog del)
  also have "\<dots> = errorLog w @ failureEntries ((name, answer) # deleteAnswers apiclient cluster s' names)"
    by (cases answer) simp_all
  finally show ?case by (simp add: del)
qed

lemma deleteAnswers_names: "map fst (deleteAnswers apiclient cluster s names) = names"
  by (induction names arbitrary: s) (simp_all split: prod.splits)

lemma deletedNames_append: "deletedNames (xs @ ys) = deletedNames xs @ deletedNames ys"
  by (induction xs rule: deletedNames.induct) simp_all

lemma deletedNames_targets:
  "deletedNames (map (\<lambda>name. CallDelete (deleteTarget cluster name)) names) = names"
  by (induction names) (simp_all add: deleteTarget_def)

lemma RemoveCronJobsForMappings_listed:
  assumes "ListIn apiclient (es_Namespace cluster) imLabels (store w) = (Inr items, s1)"
  shows "RemoveCronJobsForMappings apiclient cluster mappings policies w =
           (None,
            foldl (deleteStep apiclient cluster)
              (w\<lparr>calls := calls w @ [CallList (es_Namespace cluster) imLabels], store := s1\<rparr>)
              (sorted_list_of_set (existingNames items - expectedNames cluster mappings policies)))"
  using assms by (simp add: RemoveCronJobsForMappings_def apiList_def Let_def)

lemma RemoveCronJobsForMappings_calls:
  assumes "ListIn apiclient (es_Namespace cluster) imLabels (store w) = (Inr items, s1)"
  shows "calls (snd (RemoveCronJobsForMappings apiclient cluster mappings policies w)) =
           calls w @ CallList (es_Namespace cluster) imLabels
             # map (\<lambda>name. CallDelete (deleteTarget cluster name))
                 (sorted_list_of_set (existingNames items - expectedNames cluster mappings policies))"
  by (simp add: RemoveCronJobsForMappings_listed [OF assms] foldl_deleteStep_calls)

lemma RemoveCronJobsForMappings_errorLog:
  assumes "ListIn apiclient (es_Namespace cluster) imLabels (store w) = (Inr items, s1)"
  shows "errorLog (snd (RemoveCronJobsForMappings apiclient cluster mappings policies w)) =
           errorLog w
             @ failureEntries (deleteAnswers apiclient cluster s1
                 (sorted_list_of_set (existingNames items - expectedNames cluster mappings policies)))"
  by (simp add: RemoveCronJobsForMappings_listed [OF assms] foldl_deleteStep_errorLog)

lemma RemoveCronJobsForMappings_deleted:
  assumes "ListIn apiclient (es_Namespace cluster) imLabels (store w) = (Inr items, s1)"
  shows "deletedNames (calls (snd (RemoveCronJobsForMappings apiclient cluster mappings policies w))) =
           deletedNames (calls w)
             @ sorted_list_of_set (existingNames items - expectedNames cluster mappings policies)"
  by (simp add: RemoveCronJobsForMappings_calls [OF assms] deletedNames_append deletedNames_targets)

lemma expectedStep_dangling:
  assumes "policies (mapping_PolicyRef m) = None"
  shows "expectedStep cluster policies expected m = expected"
  using assms by (simp add: expectedStep_def policyAt_def zeroPolicy_def)

lemma expectedNames_dangling:
  assumes "policies (mapping_PolicyRef m) = None"
  shows "expectedNames cluster (ms1 @ m # ms2) policies = expectedNames cluster (ms1 @ ms2) policies"
  using assms by (simp add: expectedNames_def expectedStep_dangling)

lemma RemoveCronJobsForMappings_error:
  "fst (RemoveCronJobsForMappings apiclient cluster mappings policies w) =
     (case fst (ListIn apiclient (es_Namespace cluster) imLabels (store w)) of
        Inl err \<Rightarrow> Some (Wrapped ''failed to list cron jobs'' err)
      | Inr items \<Rightarrow> None)"
  by (simp add: RemoveCronJobsForMappings_def apiList_def Let_def split: prod.splits sum.splits)

text \<open>Three cron jobs in the store, one mapping with a hot phase only, one mapping without a policy.\<close>

lemma sorted_example:
  "sorted_list_of_set {''A-delete-X'', ''A-rollover-Y''} = [''A-delete-X'', ''A-rollover-Y'']"
  by code_simp

lemma threeCronJobs_listed:
  "ListIn apiclient ''logging'' imLabels threeCronJobs = (Inr threeCronJobs, threeCronJobs)"
  if "ListIn apiclient = memList cj_ObjectMeta"
  using that by (simp add: memList_def threeCronJobs_def exampleCronJobWith_def)

lemma threeCronJobs_names:
  "existingNames threeCronJobs = {''A-rollover-X'', ''A-delete-X'', ''A-rollover-Y''}"
  by (simp add: existingNames_def threeCronJobs_def exampleCronJobWith_def insert_commute)

lemma example_expected:
  "expectedNames exampleCluster [mappingX] examplePolicies = {''A-rollover-X''}"
  "expectedNames exampleCluster [mappingX, mappingY] examplePolicies = {''A-rollover-X''}"
  by (simp_all add: expectedNames_def expectedStep_def policyAt_def examplePolicies_def
      hotOnlyPolicy_def mappingX_def mappingY_def zeroPolicy_def rolloverName_def
      exampleCluster_def Let_def)

lemma example_orphans:
  "sorted_list_of_set ({''A-rollover-X'', ''A-delete-X'', ''A-rollover-Y''} - {''A-rollover-X''}) =
     [''A-delete-X'', ''A-rollover-Y'']"
proof -
  have "{''A-rollover-X'', ''A-delete-X'', ''A-rollover-Y''} - {''A-rollover-X''} =
      {''A-delete-X'', ''A-rollover-Y''}"
    by simp
  then show ?thesis by (simp only: sorted_example)
qed

subsection \<open>The sameness predicate and the container counts\<close>

text \<open>
  Claim C1. \<open>areCronJobsSame\<close> is to answer "different" whenever the current and the
  desired cron job have different numbers of containers. The code does not: its guard
  compares the count of \<open>lhs\<close> with itself. With a current object of two containers, the
  first being the desired one (a sidecar was added), the call panics on the second
  index instead of answering; with the roles exchanged (one container stored, two
  desired) it answers "same".
\<close>

theorem areCronJobsSame_ignores_container_count:
  "areCronJobsSame specComparators
     (exampleCronJobWith ''A-rollover-X'' ''*/15 * * * *'' [exampleContainer, sidecarContainer])
     (exampleCronJob ''*/15 * * * *'') = Inl IndexOutOfRange
   \<and> areCronJobsSame specComparators
       (exampleCronJob ''*/15 * * * *'')
       (exampleCronJobWith ''A-rollover-X'' ''*/15 * * * *'' [exampleContainer, sidecarContainer]) =
     Inr (True, exampleCronJob ''*/15 * * * *'')"
  by (simp add: areCronJobsSame_def example_defs podSpecOf_def specComparators_def
      sameContainer_def)

text \<open>
  Claim C9. \<open>areCronJobsSame\<close> panics with an index out of range exactly when the
  current object has strictly more containers than the desired one and every check made
  before the missing index passes: node selector, tolerations, schedule, suspend flag
  and the containers at the indices both objects have. In particular it returns for
  every input whose current object has no more containers than the desired one, and
  the guard on the counts never stops a call, whatever the comparators compute.
\<close>

theorem areCronJobsSame_panics_iff:
  "areCronJobsSame cmp lhs rhs = Inl IndexOutOfRange \<longleftrightarrow>
     (length (pod_Containers (podSpecOf rhs)) < length (pod_Containers (podSpecOf lhs))
      \<and> AreStringMapsSame cmp (pod_NodeSelector (podSpecOf lhs)) (pod_NodeSelector (podSpecOf rhs))
      \<and> AreTolerationsSame cmp (pod_Tolerations (podSpecOf lhs)) (pod_Tolerations (podSpecOf rhs))
      \<and> spec_Schedule (cj_Spec lhs) = spec_Schedule (cj_Spec rhs)
      \<and> \<not> (spec_Suspend (cj_Spec lhs) \<noteq> None \<and> spec_Suspend (cj_Spec rhs) \<noteq> None
             \<and> the (spec_Suspend (cj_Spec lhs)) \<noteq> the (spec_Suspend (cj_Spec rhs)))
      \<and> (\<forall>i<length (pod_Containers (podSpecOf rhs)).
            sameContainer cmp (pod_Containers (podSpecOf lhs) ! i)
                              (pod_Containers (podSpecOf rhs) ! i)))"
  unfolding areCronJobsSame_def
  using containersLoop_panic_iff
    [of cmp "pod_Containers (podSpecOf lhs)" "pod_Containers (podSpecOf rhs)"]
  by (auto split: sum.splits)

text \<open>
  The theorem at two inputs: two containers against one whose first container matches
  (a panic), and one container against one (no panic).
\<close>

theorem areCronJobsSame_panics_iff_witness:
  "areCronJobsSame specComparators
      (exampleCronJobWith ''A-rollover-X'' ''*/15 * * * *'' [exampleContainer, sidecarContainer])
      (exampleCronJob ''*/15 * * * *'') = Inl IndexOutOfRange
   \<and> areCronJobsSame specComparators storedCronJob (exampleCronJob ''*/15 * * * *'')
       \<noteq> Inl IndexOutOfRange"
  unfolding areCronJobsSame_panics_iff
  by (simp add: example_defs podSpecOf_def specComparators_def sameContainer_def)

subsection \<open>Schedule drift\<close>










subsection \<open>No write for an object that is already as desired\<close>

text \<open>
  Claim C3. On the update path, when the sameness predicate answers "same" for the
  object just fetched, no \<open>Update\<close> is issued. For the cron job and for the config map,
  and for every client: an attempt of the retry loop whose \<open>Get\<close> returns such an object
  issues that \<open>Get\<close> and nothing else and ends the loop with nil; and a pass that finds the
  object stored (\<open>Create\<close> answers "already exists") issues \<open>Create\<close> and \<open>Get\<close> only, returns
  nil and leaves the store in the state in which the \<open>Get\<close> left it.
\<close>

theorem no_update_when_same:
  "(Get apiclient (keyOf (cj_ObjectMeta desired)) (store w) = (Inr current, s)
      \<and> fnAreCronJobsSame current desired = Inr (True, current')
    \<longrightarrow> reconcileCronJobAttempt apiclient desired fnAreCronJobsSame w =
          (Inr None, w\<lparr>calls := calls w @ [CallGet (keyOf (cj_ObjectMeta desired))], store := s\<rparr>))
   \<and> (0 < steps \<and> Create apiclient desired (store w) = (Some err, s1) \<and> IsAlreadyExists err
      \<and> Get apiclient (keyOf (cj_ObjectMeta desired)) s1 = (Inr current, s2)
      \<and> fnAreCronJobsSame current desired = Inr (True, current')
    \<longrightarrow> reconcileCronJob steps apiclient cluster desired fnAreCronJobsSame w =
          (Inr None,
           w\<lparr>calls := calls w @ [CallCreate desired, CallGet (keyOf (cj_ObjectMeta desired))],
             store := s2\<rparr>))
   \<and> (Get cmclient (keyOf (cm_ObjectMeta cmdesired)) (store cmw) = (Inr cmcurrent, t)
      \<and> cm_Data cmdesired = cm_Data cmcurrent
    \<longrightarrow> reconcileConfigmapAttempt cmclient cmdesired cmw =
          (Inr None,
           cmw\<lparr>calls := calls cmw @ [CallGet (keyOf (cm_ObjectMeta cmdesired))], store := t\<rparr>))
   \<and> (0 < steps
      \<and> Create cmclient (desiredConfigmap scriptMap cluster) (store cmw) = (Some cmerr, t1)
      \<and> IsAlreadyExists cmerr
      \<and> Get cmclient (keyOf (cm_ObjectMeta (desiredConfigmap scriptMap cluster))) t1 =
          (Inr cmcurrent, t2)
      \<and> cm_Data (desiredConfigmap scriptMap cluster) = cm_Data cmcurrent
    \<longrightarrow> ReconcileCurationConfigmap steps scriptMap cmclient cluster cmw =
          (Inr None,
           cmw\<lparr>calls := calls cmw @
                  [CallCreate (desiredConfigmap scriptMap cluster),
                   CallGet (keyOf (cm_ObjectMeta (desiredConfigmap scriptMap cluster)))],
               store := t2\<rparr>))"
proof (intro conjI impI)
  assume "Get apiclient (keyOf (cj_ObjectMeta desired)) (store w) = (Inr current, s)
      \<and> fnAreCronJobsSame current desired = Inr (True, current')"
  then have "Get apiclient (keyOf (cj_ObjectMeta desired)) (store w) = (Inr current, s)"
    and "fnAreCronJobsSame current desired = Inr (True, current')" by simp_all
  then show "reconcileCronJobAttempt apiclient desired fnAreCronJobsSame w =
      (Inr None, w\<lparr>calls := calls w @ [CallGet (keyOf (cj_ObjectMeta desired))], store := s\<rparr>)"
    by (rule reconcileCronJobAttempt_same)
next
  assume "0 < steps \<and> Create apiclient desired (store w) = (Some err, s1) \<and> IsAlreadyExists err
      \<and> Get apiclient (keyOf (cj_ObjectMeta desired)) s1 = (Inr current, s2)
      \<and> fnAreCronJobsSame current desired = Inr (True, current')"
  then have "Create apiclient desired (store w) = (Some err, s1)" and "IsAlreadyExists err"
    and "Get apiclient (keyOf (cj_ObjectMeta desired)) s1 = (Inr current, s2)"
    and "fnAreCronJobsSame current desired = Inr (True, current')" and "0 < steps"
    by simp_all
  then show "reconcileCronJob steps apiclient cluster desired fnAreCronJobsSame w =
      (Inr None,
       w\<lparr>calls := calls w @ [CallCreate desired, CallGet (keyOf (cj_ObjectMeta desired))],
         store := s2\<rparr>)"
    by (rule reconcileCronJob_same)
next
  assume "Get cmclient (keyOf (cm_ObjectMeta cmdesired)) (store cmw) = (Inr cmcurrent, t)
      \<and> cm_Data cmdesired = cm_Data cmcurrent"
  then have "Get cmclient (keyOf (cm_ObjectMeta cmdesired)) (store cmw) = (Inr cmcurrent, t)"
    and "cm_Data cmdesired = cm_Data cmcurrent" by simp_all
  then show "reconcileConfigmapAttempt cmclient cmdesired cmw =
      (Inr None,
       cmw\<lparr>calls := calls cmw @ [CallGet (keyOf (cm_ObjectMeta cmdesired))], store := t\<rparr>)"
    by (rule reconcileConfigmapAttempt_same)
next
  assume "0 < steps
      \<and> Create cmclient (desiredConfigmap scriptMap cluster) (store cmw) = (Some cmerr, t1)
      \<and> IsAlreadyExists cmerr
      \<and> Get cmclient (keyOf (cm_ObjectMeta (desiredConfigmap scriptMap cluster))) t1 =
          (Inr cmcurrent, t2)
      \<and> cm_Data (desiredConfigmap scriptMap cluster) = cm_Data cmcurrent"
  then have "Create cmclient (desiredConfigmap scriptMap cluster) (store cmw) = (Some cmerr, t1)"
    and "IsAlreadyExists cmerr"
    and "Get cmclient (keyOf (cm_ObjectMeta (desiredConfigmap scriptMap cluster))) t1 =
          (Inr cmcurrent, t2)"
    and "cm_Data (desiredConfigmap scriptMap cluster) = cm_Data cmcurrent" and "0 < steps"
    by simp_all
  then show "ReconcileCurationConfigmap steps scriptMap cmclient cluster cmw =
      (Inr None,
       cmw\<lparr>calls := calls cmw @
              [CallCreate (desiredConfigmap scriptMap cluster),
               CallGet (keyOf (cm_ObjectMeta (desiredConfigmap scriptMap cluster)))],
           store := t2\<rparr>)"
    by (rule ReconcileCurationConfigmap_same)
qed

text \<open>
  The theorem on the store with no other actor, for a second pass with the desired
  object unchanged: the store holds what the first pass created (version 1), the pass
  issues \<open>Create\<close> and \<open>Get\<close>, and the store holds the same object at the same version
  afterwards.
\<close>

theorem no_update_when_same_witness:
  "reconcileCronJobAttempt cronJobStore (exampleCronJob ''*/15 * * * *'')
      (areCronJobsSame specComparators) (newWorld [storedCronJob]) =
     (Inr None,
      \<lparr>calls = [CallGet \<lparr>nn_Namespace = ''logging'', nn_Name = ''A-rollover-X''\<rparr>],
       errorLog = [], store = [storedCronJob]\<rparr>)
   \<and> reconcileCronJob 5 cronJobStore exampleCluster (exampleCronJob ''*/15 * * * *'')
      (areCronJobsSame specComparators) (newWorld [storedCronJob]) =
     (Inr None,
      \<lparr>calls = [CallCreate (exampleCronJob ''*/15 * * * *''),
                CallGet \<lparr>nn_Namespace = ''logging'', nn_Name = ''A-rollover-X''\<rparr>],
       errorLog = [], store = [storedCronJob]\<rparr>)
   \<and> reconcileConfigmapAttempt configMapStore (desiredConfigmap exampleScripts exampleCluster)
      (newWorld [storedConfigmap]) =
     (Inr None,
      \<lparr>calls = [CallGet \<lparr>nn_Namespace = ''logging'', nn_Name = ''indexmanagement-scripts''\<rparr>],
       errorLog = [], store = [storedConfigmap]\<rparr>)
   \<and> ReconcileCurationConfigmap 5 exampleScripts configMapStore exampleCluster
      (newWorld [storedConfigmap]) =
     (Inr None,
      \<lparr>calls = [CallCreate (desiredConfigmap exampleScripts exampleCluster),
                CallGet \<lparr>nn_Namespace = ''logging'', nn_Name = ''indexmanagement-scripts''\<rparr>],
       errorLog = [], store = [storedConfigmap]\<rparr>)"
proof -
  let ?D = "exampleCronJob ''*/15 * * * *''"
  let ?C = "desiredConfigmap exampleScripts exampleCluster"
  let ?W = "newWorld [storedCronJob] :: (CronJob, CronJob list) world"
  let ?V = "newWorld [storedConfigmap] :: (ConfigMap, ConfigMap list) world"
  have budget: "(0::nat) < 5" by simp
  have create: "Create cronJobStore ?D (store ?W) = (Some AlreadyExists, [storedCronJob])"
    by (simp add: example_defs store_defs)
  have get: "Get cronJobStore (keyOf (cj_ObjectMeta ?D)) [storedCronJob] =
      (Inr storedCronJob, [storedCronJob])"
    by (simp add: example_defs store_defs)
  have get0: "Get cronJobStore (keyOf (cj_ObjectMeta ?D)) (store ?W) =
      (Inr storedCronJob, [storedCronJob])"
    using get by (simp add: newWorld_def)
  have same: "areCronJobsSame specComparators storedCronJob ?D = Inr (True, storedCronJob)"
    by (simp add: areCronJobsSame_def example_defs podSpecOf_def specComparators_def
        sameContainer_def)
  have cmcreate: "Create configMapStore ?C (store ?V) = (Some AlreadyExists, [storedConfigmap])"
    by (simp add: example_defs store_defs)
  have cmget: "Get configMapStore (keyOf (cm_ObjectMeta ?C)) [storedConfigmap] =
      (Inr storedConfigmap, [storedConfigmap])"
    by (simp add: example_defs store_defs)
  have cmget0: "Get configMapStore (keyOf (cm_ObjectMeta ?C)) (store ?V) =
      (Inr storedConfigmap, [storedConfigmap])"
    using cmget by (simp add: newWorld_def)
  have cmsame: "cm_Data ?C = cm_Data storedConfigmap"
    by (simp add: example_defs)
  have exists: "IsAlreadyExists AlreadyExists" by simp
  note inst = no_update_when_same
    [where steps = 5 and cluster = exampleCluster and scriptMap = exampleScripts
       and current = storedCronJob and current' = storedCronJob and desired = ?D
       and fnAreCronJobsSame = "areCronJobsSame specComparators" and err = AlreadyExists
       and cmcurrent = storedConfigmap and cmdesired = ?C and cmerr = AlreadyExists]
  have a1: "reconcileCronJobAttempt cronJobStore ?D (areCronJobsSame specComparators) ?W =
      (Inr None, ?W\<lparr>calls := calls ?W @ [CallGet (keyOf (cj_ObjectMeta ?D))],
                    store := [storedCronJob]\<rparr>)"
    using inst [where apiclient = cronJobStore and w = ?W and s = "[storedCronJob]",
        THEN conjunct1] get0 same by blast
  have a2: "reconcileCronJob 5 cronJobStore exampleCluster ?D (areCronJobsSame specComparators) ?W =
      (Inr None, ?W\<lparr>calls := calls ?W @ [CallCreate ?D, CallGet (keyOf (cj_ObjectMeta ?D))],
                    store := [storedCronJob]\<rparr>)"
    using inst [where apiclient = cronJobStore and w = ?W and ?s1.0 = "[storedCronJob]"
        and ?s2.0 = "[storedCronJob]", THEN conjunct2, THEN conjunct1]
      budget create exists get same by blast
  have a3: "reconcileConfigmapAttempt configMapStore ?C ?V =
      (Inr None, ?V\<lparr>calls := calls ?V @ [CallGet (keyOf (cm_ObjectMeta ?C))],
                    store := [storedConfigmap]\<rparr>)"
    using inst [where cmclient = configMapStore and cmw = ?V and t = "[storedConfigmap]",
        THEN conjunct2, THEN conjunct2, THEN conjunct1] cmget0 cmsame by blast
  have a4: "ReconcileCurationConfigmap 5 exampleScripts configMapStore exampleCluster ?V =
      (Inr None, ?V\<lparr>calls := calls ?V @ [CallCreate ?C, CallGet (keyOf (cm_ObjectMeta ?C))],
                    store := [storedConfigmap]\<rparr>)"
    using inst [where cmclient = configMapStore and cmw = ?V and ?t1.0 = "[storedConfigmap]"
        and ?t2.0 = "[storedConfigmap]", THEN conjunct2, THEN conjunct2, THEN conjunct2]
      budget cmcreate exists cmget cmsame by blast
  have k1: "keyOf (cj_ObjectMeta ?D) = \<lparr>nn_Namespace = ''logging'', nn_Name = ''A-rollover-X''\<rparr>"
    by (simp add: keyOf_def exampleCronJob_def exampleCronJobWith_def)
  have k2: "keyOf (cm_ObjectMeta ?C) =
      \<lparr>nn_Namespace = ''logging'', nn_Name = ''indexmanagement-scripts''\<rparr>"
    by (simp add: keyOf_def example_defs)
  show ?thesis
    using a1 a2 a3 a4 unfolding k1 k2 by (simp add: newWorld_def)
qed

subsection \<open>Create first, update only on "already exists"\<close>

text \<open>
  Claim C4. For the cron job and for the config map, and for every client:
  when \<open>Create\<close> answers nil the pass returns nil and \<open>Create\<close> is its only call;
  when \<open>Create\<close> answers "already exists" the pass is the retry loop of the update path,
  run on the state the \<open>Create\<close> left, with its error wrapped, and with a budget of at
  least one attempt the next call is the \<open>Get\<close> of the desired key;
  when \<open>Create\<close> answers any other error the pass returns that error wrapped and
  \<open>Create\<close> is its only call: no second \<open>Create\<close>, no \<open>Get\<close>, no \<open>Update\<close>.
\<close>

theorem create_or_update_protocol:
  "(Create apiclient desired (store w) = (None, s)
    \<longrightarrow> reconcileCronJob steps apiclient cluster desired fn w =
          (Inr None, w\<lparr>calls := calls w @ [CallCreate desired], store := s\<rparr>))
   \<and> (Create apiclient desired (store w) = (Some err, s) \<and> IsAlreadyExists err
    \<longrightarrow> reconcileCronJob steps apiclient cluster desired fn w =
          (case RetryOnConflict steps (reconcileCronJobAttempt apiclient desired fn)
                  (w\<lparr>calls := calls w @ [CallCreate desired], store := s\<rparr>) of
             (Inl p, w2) \<Rightarrow> (Inl p, w2)
           | (Inr err', w2) \<Rightarrow> (Inr (Wrap err' ''failed to update cronjob for cluster''), w2))
        \<and> (0 < steps \<longrightarrow>
             (\<exists>rest. calls (snd (reconcileCronJob steps apiclient cluster desired fn w)) =
                calls w @ CallCreate desired # CallGet (keyOf (cj_ObjectMeta desired)) # rest)))
   \<and> (Create apiclient desired (store w) = (Some err, s) \<and> \<not> IsAlreadyExists err
    \<longrightarrow> reconcileCronJob steps apiclient cluster desired fn w =
          (Inr (Some (Wrapped ''failed to create cronjob for cluster'' err)),
           w\<lparr>calls := calls w @ [CallCreate desired], store := s\<rparr>))
   \<and> (Create cmclient (desiredConfigmap scriptMap cluster) (store cmw) = (None, t)
    \<longrightarrow> ReconcileCurationConfigmap steps scriptMap cmclient cluster cmw =
          (Inr None,
           cmw\<lparr>calls := calls cmw @ [CallCreate (desiredConfigmap scriptMap cluster)], store := t\<rparr>))
   \<and> (Create cmclient (desiredConfigmap scriptMap cluster) (store cmw) = (Some cmerr, t)
        \<and> IsAlreadyExists cmerr
    \<longrightarrow> ReconcileCurationConfigmap steps scriptMap cmclient cluster cmw =
          (case RetryOnConflict steps
                  (reconcileConfigmapAttempt cmclient (desiredConfigmap scriptMap cluster))
                  (cmw\<lparr>calls := calls cmw @ [CallCreate (desiredConfigmap scriptMap cluster)],
                       store := t\<rparr>) of
             (Inl p, w2) \<Rightarrow> (Inl p, w2)
           | (Inr err', w2) \<Rightarrow> (Inr (Wrap err' ''failed to update configmap''), w2))
        \<and> (0 < steps \<longrightarrow>
             (\<exists>rest. calls (snd (ReconcileCurationConfigmap steps scriptMap cmclient cluster cmw)) =
                calls cmw @ CallCreate (desiredConfigmap scriptMap cluster)
                  # CallGet (keyOf (cm_ObjectMeta (desiredConfigmap scriptMap cluster))) # rest)))
   \<and> (Create cmclient (desiredConfigmap scriptMap cluster) (store cmw) = (Some cmerr, t)
        \<and> \<not> IsAlreadyExists cmerr
    \<longrightarrow> ReconcileCurationConfigmap steps scriptMap cmclient cluster cmw =
          (Inr (Some (Wrapped ''failed to create cluster configmap'' cmerr)),
           cmw\<lparr>calls := calls cmw @ [CallCreate (desiredConfigmap scriptMap cluster)], store := t\<rparr>))"
proof -
  have cj1: "Create apiclient desired (store w) = (None, s)
    \<longrightarrow> reconcileCronJob steps apiclient cluster desired fn w =
          (Inr None, w\<lparr>calls := calls w @ [CallCreate desired], store := s\<rparr>)"
    by (rule impI) (rule reconcileCronJob_created)
  have cj2: "Create apiclient desired (store w) = (Some err, s) \<and> IsAlreadyExists err
    \<longrightarrow> reconcileCronJob steps apiclient cluster desired fn w =
          (case RetryOnConflict steps (reconcileCronJobAttempt apiclient desired fn)
                  (w\<lparr>calls := calls w @ [CallCreate desired], store := s\<rparr>) of
             (Inl p, w2) \<Rightarrow> (Inl p, w2)
           | (Inr err', w2) \<Rightarrow> (Inr (Wrap err' ''failed to update cronjob for cluster''), w2))
        \<and> (0 < steps \<longrightarrow>
             (\<exists>rest. calls (snd (reconcileCronJob steps apiclient cluster desired fn w)) =
                calls w @ CallCreate desired # CallGet (keyOf (cj_ObjectMeta desired)) # rest))"
  proof (intro impI conjI; elim conjE)
    assume "Create apiclient desired (store w) = (Some err, s)" and "IsAlreadyExists err"
    then show "reconcileCronJob steps apiclient cluster desired fn w =
          (case RetryOnConflict steps (reconcileCronJobAttempt apiclient desired fn)
                  (w\<lparr>calls := calls w @ [CallCreate desired], store := s\<rparr>) of
             (Inl p, w2) \<Rightarrow> (Inl p, w2)
           | (Inr err', w2) \<Rightarrow> (Inr (Wrap err' ''failed to update cronjob for cluster''), w2))"
      by (rule reconcileCronJob_exists)
  next
    assume "Create apiclient desired (store w) = (Some err, s)" and "IsAlreadyExists err"
      and "0 < steps"
    then show "\<exists>rest. calls (snd (reconcileCronJob steps apiclient cluster desired fn w)) =
        calls w @ CallCreate desired # CallGet (keyOf (cj_ObjectMeta desired)) # rest"
      by (rule reconcileCronJob_fetches)
  qed
  have cj3: "Create apiclient desired (store w) = (Some err, s) \<and> \<not> IsAlreadyExists err
    \<longrightarrow> reconcileCronJob steps apiclient cluster desired fn w =
          (Inr (Some (Wrapped ''failed to create cronjob for cluster'' err)),
           w\<lparr>calls := calls w @ [CallCreate desired], store := s\<rparr>)"
    by (rule impI, elim conjE) (rule reconcileCronJob_failed)
  have cm1: "Create cmclient (desiredConfigmap scriptMap cluster) (store cmw) = (None, t)
    \<longrightarrow> ReconcileCurationConfigmap steps scriptMap cmclient cluster cmw =
          (Inr None,
           cmw\<lparr>calls := calls cmw @ [CallCreate (desiredConfigmap scriptMap cluster)], store := t\<rparr>)"
    by (rule impI) (rule ReconcileCurationConfigmap_created)
  have cm2: "Create cmclient (desiredConfigmap scriptMap cluster) (store cmw) = (Some cmerr, t)
        \<and> IsAlreadyExists cmerr
    \<longrightarrow> ReconcileCurationConfigmap steps scriptMap cmclient cluster cmw =
          (case RetryOnConflict steps
                  (reconcileConfigmapAttempt cmclient (desiredConfigmap scriptMap cluster))
                  (cmw\<lparr>calls := calls cmw @ [CallCreate (desiredConfigmap scriptMap cluster)],
                       store := t\<rparr>) of
             (Inl p, w2) \<Rightarrow> (Inl p, w2)
           | (Inr err', w2) \<Rightarrow> (Inr (Wrap err' ''failed to update configmap''), w2))
        \<and> (0 < steps \<longrightarrow>
             (\<exists>rest. calls (snd (ReconcileCurationConfigmap steps scriptMap cmclient cluster cmw)) =
                calls cmw @ CallCreate (desiredConfigmap scriptMap cluster)
                  # CallGet (keyOf (cm_ObjectMeta (desiredConfigmap scriptMap cluster))) # rest))"
  proof (intro impI conjI; elim conjE)
    assume "Create cmclient (desiredConfigmap scriptMap cluster) (store cmw) = (Some cmerr, t)"
      and "IsAlreadyExists cmerr"
    then show "ReconcileCurationConfigmap steps scriptMap cmclient cluster cmw =
          (case RetryOnConflict steps
                  (reconcileConfigmapAttempt cmclient (desiredConfigmap scriptMap cluster))
                  (cmw\<lparr>calls := calls cmw @ [CallCreate (desiredConfigmap scriptMap cluster)],
                       store := t\<rparr>) of
             (Inl p, w2) \<Rightarrow> (Inl p, w2)
           | (Inr err', w2) \<Rightarrow> (Inr (Wrap err' ''failed to update configmap''), w2))"
      by (rule ReconcileCurationConfigmap_exists)
  next
    assume "Create cmclient (desiredConfigmap scriptMap cluster) (store cmw) = (Some cmerr, t)"
      and "IsAlreadyExists cmerr" and "0 < steps"
    then show "\<exists>rest. calls (snd (ReconcileCurationConfigmap steps scriptMap cmclient cluster cmw)) =
        calls cmw @ CallCreate (desiredConfigmap scriptMap cluster)
          # CallGet (keyOf (cm_ObjectMeta (desiredConfigmap scriptMap cluster))) # rest"
      by (rule ReconcileCurationConfigmap_fetches)
  qed
  have cm3: "Create cmclient (desiredConfigmap scriptMap cluster) (store cmw) = (Some cmerr, t)
        \<and> \<not> IsAlreadyExists cmerr
    \<longrightarrow> ReconcileCurationConfigmap steps scriptMap cmclient cluster cmw =
          (Inr (Some (Wrapped ''failed to create cluster configmap'' cmerr)),
           cmw\<lparr>calls := calls cmw @ [CallCreate (desiredConfigmap scriptMap cluster)], store := t\<rparr>)"
    by (rule impI, elim conjE) (rule ReconcileCurationConfigmap_failed)
  from cj1 cj2 cj3 cm1 cm2 cm3 show ?thesis by (intro conjI)
qed

text \<open>
  The theorem on three stores: an empty one (the object is created), one that holds the
  object (the pass goes on to \<open>Get\<close>), and one that refuses every write (the error comes
  back wrapped after the one \<open>Create\<close>).
\<close>

theorem create_or_update_protocol_witness:
  "reconcileCronJob 5 cronJobStore exampleCluster (exampleCronJob ''*/15 * * * *'')
      (areCronJobsSame specComparators) (newWorld []) =
     (Inr None,
      \<lparr>calls = [CallCreate (exampleCronJob ''*/15 * * * *'')], errorLog = [],
       store = [storedCronJob]\<rparr>)
   \<and> (\<exists>rest. calls (snd (reconcileCronJob 5 cronJobStore exampleCluster
                 (exampleCronJob ''*/15 * * * *'') (areCronJobsSame specComparators)
                 (newWorld [storedCronJob]))) =
         CallCreate (exampleCronJob ''*/15 * * * *'')
           # CallGet \<lparr>nn_Namespace = ''logging'', nn_Name = ''A-rollover-X''\<rparr> # rest)
   \<and> reconcileCronJob 5 (readOnlyClient cj_ObjectMeta) exampleCluster
      (exampleCronJob ''*/15 * * * *'') (areCronJobsSame specComparators) (newWorld []) =
     (Inr (Some (Wrapped ''failed to create cronjob for cluster'' (Failure ''forbidden''))),
      \<lparr>calls = [CallCreate (exampleCronJob ''*/15 * * * *'')], errorLog = [], store = []\<rparr>)
   \<and> ReconcileCurationConfigmap 5 exampleScripts configMapStore exampleCluster (newWorld []) =
     (Inr None,
      \<lparr>calls = [CallCreate (desiredConfigmap exampleScripts exampleCluster)], errorLog = [],
       store = [storedConfigmap]\<rparr>)
   \<and> (\<exists>rest. calls (snd (ReconcileCurationConfigmap 5 exampleScripts configMapStore
                 exampleCluster (newWorld [storedConfigmap]))) =
         CallCreate (desiredConfigmap exampleScripts exampleCluster)
           # CallGet \<lparr>nn_Namespace = ''logging'', nn_Name = ''indexmanagement-scripts''\<rparr> # rest)
   \<and> ReconcileCurationConfigmap 5 exampleScripts (readOnlyClient cm_ObjectMeta) exampleCluster
      (newWorld []) =
     (Inr (Some (Wrapped ''failed to create cluster configmap'' (Failure ''forbidden''))),
      \<lparr>calls = [CallCreate (desiredConfigmap exampleScripts exampleCluster)], errorLog = [],
       store = []\<rparr>)"
proof -
  let ?D = "exampleCronJob ''*/15 * * * *''"
  let ?C = "desiredConfigmap exampleScripts exampleCluster"
  let ?fn = "areCronJobsSame specComparators"
  let ?E = "newWorld [] :: (CronJob, CronJob list) world"
  let ?W = "newWorld [storedCronJob] :: (CronJob, CronJob list) world"
  let ?F = "newWorld [] :: (ConfigMap, ConfigMap list) world"
  let ?V = "newWorld [storedConfigmap] :: (ConfigMap, ConfigMap list) world"
  note inst = create_or_update_protocol
    [where steps = 5 and cluster = exampleCluster and scriptMap = exampleScripts
       and desired = ?D and fn = ?fn]
  have budget: "(0::nat) < 5" by simp
  have c1: "Create cronJobStore ?D (store ?E) = (None, [storedCronJob])"
    by (simp add: example_defs store_defs)
  have c2: "Create cronJobStore ?D (store ?W) = (Some AlreadyExists, [storedCronJob])
      \<and> IsAlreadyExists AlreadyExists"
    by (simp add: example_defs store_defs)
  have c3: "Create (readOnlyClient cj_ObjectMeta) ?D (store ?E) = (Some (Failure ''forbidden''), [])
      \<and> \<not> IsAlreadyExists (Failure ''forbidden'')"
    by (simp add: store_defs)
  have d1: "Create configMapStore ?C (store ?F) = (None, [storedConfigmap])"
    by (simp add: example_defs store_defs)
  have d2: "Create configMapStore ?C (store ?V) = (Some AlreadyExists, [storedConfigmap])
      \<and> IsAlreadyExists AlreadyExists"
    by (simp add: example_defs store_defs)
  have d3: "Create (readOnlyClient cm_ObjectMeta) ?C (store ?F) = (Some (Failure ''forbidden''), [])
      \<and> \<not> IsAlreadyExists (Failure ''forbidden'')"
    by (simp add: store_defs)
  have k1: "keyOf (cj_ObjectMeta ?D) = \<lparr>nn_Namespace = ''logging'', nn_Name = ''A-rollover-X''\<rparr>"
    by (simp add: keyOf_def exampleCronJob_def exampleCronJobWith_def)
  have k2: "keyOf (cm_ObjectMeta ?C) =
      \<lparr>nn_Namespace = ''logging'', nn_Name = ''indexmanagement-scripts''\<rparr>"
    by (simp add: keyOf_def example_defs)
  have a1: "reconcileCronJob 5 cronJobStore exampleCluster ?D ?fn ?E =
      (Inr None, ?E\<lparr>calls := calls ?E @ [CallCreate ?D], store := [storedCronJob]\<rparr>)"
    using inst [where apiclient = cronJobStore and w = ?E and s = "[storedCronJob]",
        THEN conjunct1] c1 by blast
  have a2: "\<exists>rest. calls (snd (reconcileCronJob 5 cronJobStore exampleCluster ?D ?fn ?W)) =
      calls ?W @ CallCreate ?D # CallGet (keyOf (cj_ObjectMeta ?D)) # rest"
    using inst [where apiclient = cronJobStore and w = ?W and s = "[storedCronJob]"
        and err = AlreadyExists, THEN conjunct2, THEN conjunct1] c2 budget by blast
  have a3: "reconcileCronJob 5 (readOnlyClient cj_ObjectMeta) exampleCluster ?D ?fn ?E =
      (Inr (Some (Wrapped ''failed to create cronjob for cluster'' (Failure ''forbidden''))),
       ?E\<lparr>calls := calls ?E @ [CallCreate ?D], store := []\<rparr>)"
    using inst [where apiclient = "readOnlyClient cj_ObjectMeta" and w = ?E and s = "[]"
        and err = "Failure ''forbidden''", THEN conjunct2, THEN conjunct2, THEN conjunct1] c3
    by blast
  have b1: "ReconcileCurationConfigmap 5 exampleScripts configMapStore exampleCluster ?F =
      (Inr None, ?F\<lparr>calls := calls ?F @ [CallCreate ?C], store := [storedConfigmap]\<rparr>)"
    using inst [where cmclient = configMapStore and cmw = ?F and t = "[storedConfigmap]",
        THEN conjunct2, THEN conjunct2, THEN conjunct2, THEN conjunct1] d1 by blast
  have b2: "\<exists>rest. calls (snd (ReconcileCurationConfigmap 5 exampleScripts configMapStore
                exampleCluster ?V)) =
      calls ?V @ CallCreate ?C # CallGet (keyOf (cm_ObjectMeta ?C)) # rest"
    using inst [where cmclient = configMapStore and cmw = ?V and t = "[storedConfigmap]"
        and cmerr = AlreadyExists,
        THEN conjunct2, THEN conjunct2, THEN conjunct2, THEN conjunct2, THEN conjunct1]
      d2 budget by blast
  have b3: "ReconcileCurationConfigmap 5 exampleScripts (readOnlyClient cm_ObjectMeta)
              exampleCluster ?F =
      (Inr (Some (Wrapped ''failed to create cluster configmap'' (Failure ''forbidden''))),
       ?F\<lparr>calls := calls ?F @ [CallCreate ?C], store := []\<rparr>)"
    using inst [where cmclient = "readOnlyClient cm_ObjectMeta" and cmw = ?F and t = "[]"
        and cmerr = "Failure ''forbidden''",
        THEN conjunct2, THEN conjunct2, THEN conjunct2, THEN conjunct2, THEN conjunct2] d3
    by blast
  show ?thesis
    using a1 a2 a3 b1 b2 b3 unfolding k1 k2 by (simp add: newWorld_def)
qed

subsection \<open>Which cron jobs are removed\<close>



text \<open>
  Claim C6. When the store lists the existing cron jobs, the run returns nil and
  issues one \<open>Delete\<close> for every orphan, in order, whatever the store answers to each of
  them: no answer stops the loop. The log of the run grows by exactly one entry, with
  the error and the name, for every \<open>Delete\<close> that the store answered with an error other
  than "not found", in the order of the calls; a \<open>Delete\<close> answered with nil or with
  "not found" adds none. The same for one orphan: "not found" leaves the same trace as
  nil (the call, nothing logged); any other error is logged, and nothing else changes.
\<close>

theorem delete_failures_do_not_stop_cleanup:
  "(ListIn apiclient (es_Namespace cluster) imLabels (store w) = (Inr items, s1) \<longrightarrow>
      fst (RemoveCronJobsForMappings apiclient cluster mappings policies w) = None
      \<and> calls (snd (RemoveCronJobsForMappings apiclient cluster mappings policies w)) =
          calls w @ CallList (es_Namespace cluster) imLabels
            # map (\<lambda>name. CallDelete (deleteTarget cluster name))
                (sorted_list_of_set (existingNames items - expectedNames cluster mappings policies))
      \<and> errorLog (snd (RemoveCronJobsForMappings apiclient cluster mappings policies w)) =
          errorLog w
            @ failureEntries (deleteAnswers apiclient cluster s1
                (sorted_list_of_set (existingNames items - expectedNames cluster mappings policies)))
      \<and> map fst (deleteAnswers apiclient cluster s1
            (sorted_list_of_set (existingNames items - expectedNames cluster mappings policies))) =
          sorted_list_of_set (existingNames items - expectedNames cluster mappings policies))
   \<and> (Delete apiclient (deleteTarget cluster name) (store w) = (None, s) \<longrightarrow>
        deleteStep apiclient cluster w name =
          w\<lparr>calls := calls w @ [CallDelete (deleteTarget cluster name)], store := s\<rparr>)
   \<and> (Delete apiclient (deleteTarget cluster name) (store w) = (Some err, s) \<and> IsNotFound err \<longrightarrow>
        deleteStep apiclient cluster w name =
          w\<lparr>calls := calls w @ [CallDelete (deleteTarget cluster name)], store := s\<rparr>)
   \<and> (Delete apiclient (deleteTarget cluster name) (store w) = (Some err, s) \<and> \<not> IsNotFound err \<longrightarrow>
        deleteStep apiclient cluster w name =
          w\<lparr>calls := calls w @ [CallDelete (deleteTarget cluster name)],
            errorLog := errorLog w @ [(err, ''failed to remove cronjob'', name)],
            store := s\<rparr>)"
proof (intro conjI impI; (elim conjE)?)
  assume listed: "ListIn apiclient (es_Namespace cluster) imLabels (store w) = (Inr items, s1)"
  show "fst (RemoveCronJobsForMappings apiclient cluster mappings policies w) = None"
    by (simp add: RemoveCronJobsForMappings_listed [OF listed])
  show "calls (snd (RemoveCronJobsForMappings apiclient cluster mappings policies w)) =
      calls w @ CallList (es_Namespace cluster) imLabels
        # map (\<lambda>name. CallDelete (deleteTarget cluster name))
            (sorted_list_of_set (existingNames items - expectedNames cluster mappings policies))"
    by (rule RemoveCronJobsForMappings_calls [OF listed])
  show "errorLog (snd (RemoveCronJobsForMappings apiclient cluster mappings policies w)) =
      errorLog w
        @ failureEntries (deleteAnswers apiclient cluster s1
            (sorted_list_of_set (existingNames items - expectedNames cluster mappings policies)))"
    by (rule RemoveCronJobsForMappings_errorLog [OF listed])
  show "map fst (deleteAnswers apiclient cluster s1
        (sorted_list_of_set (existingNames items - expectedNames cluster mappings policies))) =
      sorted_list_of_set (existingNames items - expectedNames cluster mappings policies)"
    by (rule deleteAnswers_names)
next
  assume "Delete apiclient (deleteTarget cluster name) (store w) = (None, s)"
  then show "deleteStep apiclient cluster w name =
      w\<lparr>calls := calls w @ [CallDelete (deleteTarget cluster name)], store := s\<rparr>"
    by (simp add: deleteStep_def apiDelete_def)
next
  assume "Delete apiclient (deleteTarget cluster name) (store w) = (Some err, s)"
    and "IsNotFound err"
  then show "deleteStep apiclient cluster w name =
      w\<lparr>calls := calls w @ [CallDelete (deleteTarget cluster name)], store := s\<rparr>"
    by (simp add: deleteStep_def apiDelete_def)
next
  assume "Delete apiclient (deleteTarget cluster name) (store w) = (Some err, s)"
    and "\<not> IsNotFound err"
  then show "deleteStep apiclient cluster w name =
      w\<lparr>calls := calls w @ [CallDelete (deleteTarget cluster name)],
        errorLog := errorLog w @ [(err, ''failed to remove cronjob'', name)],
        store := s\<rparr>"
    by (simp add: deleteStep_def apiDelete_def)
qed

text \<open>
  The theorem on the example of section 8 behind a client that refuses every write:
  both orphans get their \<open>Delete\<close> although the first one fails, both failures are in the
  log of the run, and the run returns nil. And one step on each kind of answer: the
  store that holds the three cron jobs (nil), the empty store ("not found") and the
  client that refuses ("forbidden", logged).
\<close>

theorem delete_failures_do_not_stop_cleanup_witness:
  "fst (RemoveCronJobsForMappings (readOnlyClient cj_ObjectMeta) exampleCluster [mappingX]
          examplePolicies (newWorld threeCronJobs)) = None
   \<and> calls (snd (RemoveCronJobsForMappings (readOnlyClient cj_ObjectMeta) exampleCluster [mappingX]
          examplePolicies (newWorld threeCronJobs))) =
       [CallList ''logging'' imLabels,
        CallDelete (deleteTarget exampleCluster ''A-delete-X''),
        CallDelete (deleteTarget exampleCluster ''A-rollover-Y'')]
   \<and> errorLog (snd (RemoveCronJobsForMappings (readOnlyClient cj_ObjectMeta) exampleCluster
          [mappingX] examplePolicies (newWorld threeCronJobs))) =
       [(Failure ''forbidden'', ''failed to remove cronjob'', ''A-delete-X''),
        (Failure ''forbidden'', ''failed to remove cronjob'', ''A-rollover-Y'')]
   \<and> deleteStep cronJobStore exampleCluster (newWorld threeCronJobs) ''A-delete-X'' =
       \<lparr>calls = [CallDelete (deleteTarget exampleCluster ''A-delete-X'')], errorLog = [],
        store = [exampleCronJobWith ''A-rollover-X'' ''*/15 * * * *'' [exampleContainer],
                 exampleCronJobWith ''A-rollover-Y'' ''*/15 * * * *'' [exampleContainer]]\<rparr>
   \<and> deleteStep cronJobStore exampleCluster (newWorld []) ''A-delete-X'' =
       \<lparr>calls = [CallDelete (deleteTarget exampleCluster ''A-delete-X'')], errorLog = [],
        store = []\<rparr>
   \<and> deleteStep (readOnlyClient cj_ObjectMeta) exampleCluster (newWorld threeCronJobs)
        ''A-delete-X'' =
       \<lparr>calls = [CallDelete (deleteTarget exampleCluster ''A-delete-X'')],
        errorLog = [(Failure ''forbidden'', ''failed to remove cronjob'', ''A-delete-X'')],
        store = threeCronJobs\<rparr>"
proof -
  let ?W = "newWorld threeCronJobs :: (CronJob, CronJob list) world"
  let ?E = "newWorld [] :: (CronJob, CronJob list) world"
  let ?T = "deleteTarget exampleCluster ''A-delete-X''"
  let ?R = "RemoveCronJobsForMappings (readOnlyClient cj_ObjectMeta) exampleCluster [mappingX]
          examplePolicies ?W"
  let ?orphans = "sorted_list_of_set (existingNames threeCronJobs
                 - expectedNames exampleCluster [mappingX] examplePolicies)"
  note inst = delete_failures_do_not_stop_cleanup
    [where cluster = exampleCluster and mappings = "[mappingX]" and policies = examplePolicies
       and name = "''A-delete-X''"]
  have listed: "ListIn (readOnlyClient cj_ObjectMeta) (es_Namespace exampleCluster) imLabels (store ?W) =
      (Inr threeCronJobs, threeCronJobs)"
    using threeCronJobs_listed [of "readOnlyClient cj_ObjectMeta"]
    by (simp add: readOnlyClient_def exampleCluster_def newWorld_def)
  have a: "fst ?R = None
      \<and> calls (snd ?R) =
        calls ?W @ CallList (es_Namespace exampleCluster) imLabels
          # map (\<lambda>name. CallDelete (deleteTarget exampleCluster name)) ?orphans
      \<and> errorLog (snd ?R) =
        errorLog ?W @ failureEntries
          (deleteAnswers (readOnlyClient cj_ObjectMeta) exampleCluster threeCronJobs ?orphans)
      \<and> map fst (deleteAnswers (readOnlyClient cj_ObjectMeta) exampleCluster threeCronJobs ?orphans) =
        ?orphans"
    using inst [where apiclient = "readOnlyClient cj_ObjectMeta" and w = ?W
        and items = threeCronJobs and ?s1.0 = threeCronJobs, THEN conjunct1] listed
    by blast
  have orphans: "?orphans = [''A-delete-X'', ''A-rollover-Y'']"
    unfolding threeCronJobs_names example_expected by (rule example_orphans)
  have answers: "deleteAnswers (readOnlyClient cj_ObjectMeta) exampleCluster threeCronJobs
      [''A-delete-X'', ''A-rollover-Y''] =
      [(''A-delete-X'', Some (Failure ''forbidden'')), (''A-rollover-Y'', Some (Failure ''forbidden''))]"
    by (simp add: readOnlyClient_def)
  have a1: "fst ?R = None" using a by blast
  have a2: "calls (snd ?R) =
      [CallList ''logging'' imLabels,
       CallDelete (deleteTarget exampleCluster ''A-delete-X''),
       CallDelete (deleteTarget exampleCluster ''A-rollover-Y'')]"
    using a unfolding orphans by (simp add: newWorld_def exampleCluster_def)
  have a3: "errorLog (snd ?R) =
      [(Failure ''forbidden'', ''failed to remove cronjob'', ''A-delete-X''),
       (Failure ''forbidden'', ''failed to remove cronjob'', ''A-rollover-Y'')]"
    using a unfolding orphans answers by (simp add: newWorld_def)
  have d1: "Delete cronJobStore ?T (store ?W) =
      (None, [exampleCronJobWith ''A-rollover-X'' ''*/15 * * * *'' [exampleContainer],
              exampleCronJobWith ''A-rollover-Y'' ''*/15 * * * *'' [exampleContainer]])"
    by (simp add: store_defs threeCronJobs_def exampleCronJobWith_def deleteTarget_def
        zeroObjectMeta_def exampleCluster_def)
  have d2: "Delete cronJobStore ?T (store ?E) = (Some NotFound, []) \<and> IsNotFound NotFound"
    by (simp add: store_defs)
  have d3: "Delete (readOnlyClient cj_ObjectMeta) ?T (store ?W) =
      (Some (Failure ''forbidden''), threeCronJobs) \<and> \<not> IsNotFound (Failure ''forbidden'')"
    by (simp add: store_defs)
  have b1: "deleteStep cronJobStore exampleCluster ?W ''A-delete-X'' =
      ?W\<lparr>calls := calls ?W @ [CallDelete ?T],
         store := [exampleCronJobWith ''A-rollover-X'' ''*/15 * * * *'' [exampleContainer],
                   exampleCronJobWith ''A-rollover-Y'' ''*/15 * * * *'' [exampleContainer]]\<rparr>"
    using inst [where apiclient = cronJobStore and w = ?W, THEN conjunct2, THEN conjunct1] d1
    by blast
  have b2: "deleteStep cronJobStore exampleCluster ?E ''A-delete-X'' =
      ?E\<lparr>calls := calls ?E @ [CallDelete ?T], store := []\<rparr>"
    using inst [where apiclient = cronJobStore and w = ?E and err = NotFound and s = "[]",
        THEN conjunct2, THEN conjunct2, THEN conjunct1] d2
    by blast
  have b3: "deleteStep (readOnlyClient cj_ObjectMeta) exampleCluster ?W ''A-delete-X'' =
      ?W\<lparr>calls := calls ?W @ [CallDelete ?T],
         errorLog := errorLog ?W @ [(Failure ''forbidden'', ''failed to remove cronjob'', ''A-delete-X'')],
         store := threeCronJobs\<rparr>"
    using inst [where apiclient = "readOnlyClient cj_ObjectMeta" and w = ?W
        and err = "Failure ''forbidden''" and s = threeCronJobs,
        THEN conjunct2, THEN conjunct2, THEN conjunct2] d3
    by blast
  show ?thesis
    using a1 a2 a3 b1 b2 b3 by (simp add: newWorld_def)
qed

subsection \<open>A mapping whose policy is missing\<close>

text \<open>
  Claim C10. A mapping whose policy reference is not a key of the policy map is read
  with the zero policy, which has no hot and no delete phase. Such a mapping adds no
  name to the expected set; the whole run (calls, log, result) is the run of the list
  without that mapping; so a listed cron job that bears the rollover or the delete name
  of the mapping is handed to \<open>Delete\<close>, unless another mapping of the list asks for that
  name; and the only error a run returns is the one of a failed \<open>List\<close>, never one about
  the missing policy.
\<close>

theorem dangling_policy_reference:
  assumes "policies (mapping_PolicyRef m) = None"
  shows "policyAt policies (mapping_PolicyRef m) = zeroPolicy
     \<and> phases_Hot (policy_Phases zeroPolicy) = None
     \<and> phases_Delete (policy_Phases zeroPolicy) = None
     \<and> expectedStep cluster policies expected m = expected
     \<and> RemoveCronJobsForMappings apiclient cluster (ms1 @ m # ms2) policies w =
         RemoveCronJobsForMappings apiclient cluster (ms1 @ ms2) policies w
     \<and> (ListIn apiclient (es_Namespace cluster) imLabels (store w) = (Inr items, s1)
          \<and> (n = rolloverName (es_Name cluster) (mapping_Name m)
               \<or> n = deleteName (es_Name cluster) (mapping_Name m))
          \<and> n \<in> existingNames items
          \<and> n \<notin> expectedNames cluster (ms1 @ ms2) policies
        \<longrightarrow> n \<in> set (deletedNames (calls (snd
              (RemoveCronJobsForMappings apiclient cluster (ms1 @ m # ms2) policies w)))))
     \<and> fst (RemoveCronJobsForMappings apiclient cluster (ms1 @ m # ms2) policies w) =
         (case fst (ListIn apiclient (es_Namespace cluster) imLabels (store w)) of
            Inl err \<Rightarrow> Some (Wrapped ''failed to list cron jobs'' err)
          | Inr items \<Rightarrow> None)"
proof -
  have zero: "policyAt policies (mapping_PolicyRef m) = zeroPolicy"
    using assms by (simp add: policyAt_def)
  have phases: "phases_Hot (policy_Phases zeroPolicy) = None"
    "phases_Delete (policy_Phases zeroPolicy) = None"
    by (simp_all add: zeroPolicy_def)
  have step: "expectedStep cluster policies expected m = expected"
    using assms by (rule expectedStep_dangling)
  have names: "expectedNames cluster (ms1 @ m # ms2) policies =
      expectedNames cluster (ms1 @ ms2) policies"
    using assms by (rule expectedNames_dangling)
  have run: "RemoveCronJobsForMappings apiclient cluster (ms1 @ m # ms2) policies w =
      RemoveCronJobsForMappings apiclient cluster (ms1 @ ms2) policies w"
    by (simp add: RemoveCronJobsForMappings_def names)
  have deleted: "n \<in> set (deletedNames (calls (snd
      (RemoveCronJobsForMappings apiclient cluster (ms1 @ m # ms2) policies w))))"
    if listed: "ListIn apiclient (es_Namespace cluster) imLabels (store w) = (Inr items, s1)"
      and ex: "n \<in> existingNames items"
      and notexp: "n \<notin> expectedNames cluster (ms1 @ ms2) policies"
  proof -
    have "n \<in> set (sorted_list_of_set
        (existingNames items - expectedNames cluster (ms1 @ m # ms2) policies))"
      using ex notexp by (simp add: names finite_existingNames)
    then show ?thesis
      by (simp add: RemoveCronJobsForMappings_deleted [OF listed])
  qed
  have err: "fst (RemoveCronJobsForMappings apiclient cluster (ms1 @ m # ms2) policies w) =
      (case fst (ListIn apiclient (es_Namespace cluster) imLabels (store w)) of
         Inl err \<Rightarrow> Some (Wrapped ''failed to list cron jobs'' err)
       | Inr items \<Rightarrow> None)"
    by (rule RemoveCronJobsForMappings_error)
  from zero phases step run deleted err show ?thesis by blast
qed

text \<open>
  The theorem on the example of section 8 with the mapping \<open>Y\<close>, whose policy is missing,
  after the mapping \<open>X\<close>: \<open>A-rollover-Y\<close> is handed to \<open>Delete\<close> and the run returns nil.
\<close>

theorem dangling_policy_reference_witness:
  "examplePolicies (mapping_PolicyRef mappingY) = None
   \<and> ''A-rollover-Y'' = rolloverName (es_Name exampleCluster) (mapping_Name mappingY)
   \<and> ''A-rollover-Y'' \<in> set (deletedNames (calls (snd
        (RemoveCronJobsForMappings cronJobStore exampleCluster [mappingX, mappingY]
           examplePolicies (newWorld threeCronJobs)))))
   \<and> RemoveCronJobsForMappings cronJobStore exampleCluster [mappingX, mappingY]
        examplePolicies (newWorld threeCronJobs) =
      RemoveCronJobsForMappings cronJobStore exampleCluster [mappingX]
        examplePolicies (newWorld threeCronJobs)
   \<and> fst (RemoveCronJobsForMappings cronJobStore exampleCluster [mappingX, mappingY]
        examplePolicies (newWorld threeCronJobs)) = None"
proof -
  let ?W = "newWorld threeCronJobs :: (CronJob, CronJob list) world"
  have dangling: "examplePolicies (mapping_PolicyRef mappingY) = None"
    by (simp add: examplePolicies_def mappingY_def)
  have name: "''A-rollover-Y'' = rolloverName (es_Name exampleCluster) (mapping_Name mappingY)"
    by (simp add: rolloverName_def exampleCluster_def mappingY_def)
  have listed: "ListIn cronJobStore (es_Namespace exampleCluster) imLabels (store ?W) =
      (Inr threeCronJobs, threeCronJobs)"
    using threeCronJobs_listed [of cronJobStore]
    by (simp add: cronJobStore_def memClient_def exampleCluster_def newWorld_def)
  have ex: "''A-rollover-Y'' \<in> existingNames threeCronJobs"
    by (simp add: threeCronJobs_names)
  have notexp: "''A-rollover-Y'' \<notin> expectedNames exampleCluster ([mappingX] @ []) examplePolicies"
    by (simp add: example_expected)
  note inst = dangling_policy_reference
    [where policies = examplePolicies and m = mappingY and cluster = exampleCluster
       and ?ms1.0 = "[mappingX]" and ?ms2.0 = "[]" and apiclient = cronJobStore and w = ?W
       and items = threeCronJobs and ?s1.0 = threeCronJobs and n = "''A-rollover-Y''"
       and expected = "{}", OF dangling]
  from inst listed name ex notexp
  have del: "''A-rollover-Y'' \<in> set (deletedNames (calls (snd
      (RemoveCronJobsForMappings cronJobStore exampleCluster ([mappingX] @ mappingY # [])
         examplePolicies ?W))))"
    by blast
  from inst have same: "RemoveCronJobsForMappings cronJobStore exampleCluster
      ([mappingX] @ mappingY # []) examplePolicies ?W =
      RemoveCronJobsForMappings cronJobStore exampleCluster ([mappingX] @ []) examplePolicies ?W"
    by blast
  from inst have "fst (RemoveCronJobsForMappings cronJobStore exampleCluster
      ([mappingX] @ mappingY # []) examplePolicies ?W) =
      (case fst (ListIn cronJobStore (es_Namespace exampleCluster) imLabels (store ?W)) of
         Inl err \<Rightarrow> Some (Wrapped ''failed to list cron jobs'' err)
       | Inr items \<Rightarrow> None)"
    by blast
  with listed
  have res: "fst (RemoveCronJobsForMappings cronJobStore exampleCluster
      ([mappingX] @ mappingY # []) examplePolicies ?W) = None"
    by simp
  from dangling name del same res show ?thesis by simp
qed

subsection \<open>Thresholds\<close>

text \<open>
  Claim C7. With an explicit max size in the hot phase the conditions carry that size
  unchanged, for every number of primary shards; with none they carry the product
  \<open>defaultShardSize \<times> primaryShards\<close> (as the rendering writes it), where
  \<open>defaultShardSize\<close> is 40, so that three shards give the size 120, three times the
  default.
\<close>

theorem rollover_max_size:
  "MaxSize (calculateConditions sizeString (hot\<lparr>hot_MaxSize := Some maxSize\<rparr>) primaryShards) = maxSize
   \<and> MaxSize (calculateConditions sizeString (hot\<lparr>hot_MaxSize := None\<rparr>) primaryShards) =
       sizeString (defaultShardSize * primaryShards)
   \<and> defaultShardSize = 40
   \<and> MaxSize (calculateConditions sizeString (hot\<lparr>hot_MaxSize := None\<rparr>) 3) = sizeString 120
   \<and> (120 :: int32) = 3 * defaultShardSize"
  by (simp add: calculateConditions_def defaultShardSize_def)

lemma millis_values:
  "millisPerSecond = 1000" "millisPerMinute = 60000" "millisPerHour = 3600000"
  "millisPerDay = 86400000" "millisPerWeek = 604800000"
  by (simp_all add: millisPerSecond_def millisPerMinute_def millisPerHour_def millisPerDay_def
      millisPerWeek_def)

lemma unit_not_digit: "u \<in> set ''smhdw'' \<Longrightarrow> \<not> isDigit u"
  by (auto simp: isDigit_def)

lemma unitMillis_unitFactor: "u \<in> set ''smhdw'' \<Longrightarrow> unitMillis u = Some (unitFactor u)"
  by (auto simp: unitMillis_def unitFactor_def millis_values)

lemma scanDuration_digits:
  assumes "list_all isDigit ds" and "ds \<noteq> []"
  shows "scanDuration acc magnitude (ds @ rest) =
           scanDuration acc
             (Some (foldl (\<lambda>n c. 10 * n + digitValue c)
                      (case magnitude of None \<Rightarrow> 0 | Some n \<Rightarrow> n) ds)) rest"
  using assms
proof (induction ds arbitrary: magnitude)
  case Nil
  then show ?case by simp
next
  case (Cons c ds)
  show ?case
  proof (cases "ds = []")
    case True
    with Cons.prems show ?thesis by simp
  next
    case False
    with Cons.prems Cons.IH [of "Some (10 * (case magnitude of None \<Rightarrow> 0 | Some n \<Rightarrow> n) + digitValue c)"]
    show ?thesis by simp
  qed
qed

lemma scanDuration_segment:
  assumes "validSegment seg"
  shows "scanDuration acc None (fst seg @ snd seg # rest) =
           scanDuration (acc + of_nat (decimal (fst seg)) * unitFactor (snd seg)) None rest"
proof -
  from assms have digits: "list_all isDigit (fst seg)" and ne: "fst seg \<noteq> []"
    and unit: "snd seg \<in> set ''smhdw''"
    by (simp_all add: validSegment_def)
  have "scanDuration acc None (fst seg @ snd seg # rest) =
      scanDuration acc (Some (decimal (fst seg))) (snd seg # rest)"
    using scanDuration_digits [OF digits ne, of acc None "snd seg # rest"]
    by (simp add: decimal_def)
  also have "\<dots> = scanDuration (acc + of_nat (decimal (fst seg)) * unitFactor (snd seg)) None rest"
    using unit_not_digit [OF unit] unitMillis_unitFactor [OF unit] by simp
  finally show ?thesis .
qed

lemma scanDuration_segments:
  assumes "list_all validSegment segs"
  shows "scanDuration acc None (durationString segs) = Inr (acc + durationMillis segs)"
  using assms
proof (induction segs arbitrary: acc)
  case Nil
  show ?case by (simp add: durationString_def durationMillis_def)
next
  case (Cons seg segs)
  from Cons.prems have seg: "validSegment seg" and rest: "list_all validSegment segs"
    by simp_all
  have "scanDuration acc None (durationString (seg # segs)) =
      scanDuration acc None (fst seg @ snd seg # durationString segs)"
    by (simp add: durationString_def)
  also have "\<dots> = scanDuration (acc + of_nat (decimal (fst seg)) * unitFactor (snd seg)) None
      (durationString segs)"
    by (rule scanDuration_segment [OF seg])
  also have "\<dots> = Inr (acc + of_nat (decimal (fst seg)) * unitFactor (snd seg) + durationMillis segs)"
    by (rule Cons.IH [OF rest])
  finally show ?case by (simp add: durationMillis_def add.assoc)
qed

lemma durationString_nonempty:
  assumes "segs \<noteq> []"
  shows "durationString segs \<noteq> []"
  using assms by (cases segs) (simp_all add: durationString_def)

text \<open>
  Claim C8. The factors of reconcile.go:43-47 are 1000, 60,000, 3,600,000, 86,400,000
  and 604,800,000 milliseconds for a second, a minute, an hour, a day and a week.
  The conversion is a function of the string alone; on every valid duration (one or
  more segments, each a decimal magnitude and one of the units s, m, h, d, w) it
  returns the sum of the magnitudes times these factors, and so 86,400,000 for \<open>1d\<close> and
  604,800,000 for \<open>1w\<close>.
\<close>

theorem duration_millis_fixed_factors:
  "millisPerSecond = 1000 \<and> millisPerMinute = 60000 \<and> millisPerHour = 3600000
   \<and> millisPerDay = 86400000 \<and> millisPerWeek = 604800000
   \<and> unitMillis CHR ''s'' = Some 1000 \<and> unitMillis CHR ''m'' = Some 60000
   \<and> unitMillis CHR ''h'' = Some 3600000 \<and> unitMillis CHR ''d'' = Some 86400000
   \<and> unitMillis CHR ''w'' = Some 604800000
   \<and> calculateMillisForTimeUnit ''1d'' = Inr 86400000
   \<and> calculateMillisForTimeUnit ''1w'' = Inr 604800000
   \<and> (segs \<noteq> [] \<and> list_all validSegment segs \<longrightarrow>
        calculateMillisForTimeUnit (durationString segs) = Inr (durationMillis segs))"
proof -
  have general: "calculateMillisForTimeUnit (durationString segs) = Inr (durationMillis segs)"
    if "segs \<noteq> []" and "list_all validSegment segs" for segs
    using that scanDuration_segments [of segs 0] durationString_nonempty [of segs]
    by (simp add: calculateMillisForTimeUnit_def)
  have units: "unitMillis CHR ''s'' = Some 1000" "unitMillis CHR ''m'' = Some 60000"
    "unitMillis CHR ''h'' = Some 3600000" "unitMillis CHR ''d'' = Some 86400000"
    "unitMillis CHR ''w'' = Some 604800000"
    by (simp_all add: unitMillis_def millis_values)
  have day: "calculateMillisForTimeUnit ''1d'' = Inr 86400000"
    using general [of "[(''1'', CHR ''d'')]"]
    by (simp add: validSegment_def isDigit_def durationString_def durationMillis_def
        decimal_def digitValue_def unitFactor_def)
  have week: "calculateMillisForTimeUnit ''1w'' = Inr 604800000"
    using general [of "[(''1'', CHR ''w'')]"]
    by (simp add: validSegment_def isDigit_def durationString_def durationMillis_def
        decimal_def digitValue_def unitFactor_def)
  from millis_values units day week general show ?thesis by blast
qed

text \<open>The theorem on \<open>1d12h\<close>: a day and twelve hours, 129,600,000 milliseconds.\<close>

theorem duration_millis_fixed_factors_witness:
  "[(''1'', CHR ''d''), (''12'', CHR ''h'')] \<noteq> []
   \<and> list_all validSegment [(''1'', CHR ''d''), (''12'', CHR ''h'')]
   \<and> durationString [(''1'', CHR ''d''), (''12'', CHR ''h'')] = ''1d12h''
   \<and> calculateMillisForTimeUnit ''1d12h'' = Inr 129600000"
proof -
  let ?segs = "[(''1'', CHR ''d''), (''12'', CHR ''h'')]"
  have valid: "?segs \<noteq> [] \<and> list_all validSegment ?segs"
    by (simp add: validSegment_def isDigit_def)
  have str: "durationString ?segs = ''1d12h''"
    by (simp add: durationString_def)
  have val: "durationMillis ?segs = 129600000"
    by (simp add: durationMillis_def decimal_def digitValue_def unitFactor_def)
  from duration_millis_fixed_factors [of ?segs] valid
  have "calculateMillisForTimeUnit (durationString ?segs) = Inr (durationMillis ?segs)"
    by blast
  with valid str val show ?thesis by simp
qed

end
